theory Spec2Isabelle
  imports
    Complex_Main
    "HOL-Library.Multiset"
    "HOL-Library.List_Lexorder"
    "HOL-Library.Product_Lexorder"
begin

section \<open>Reporting module of the DQN/DDQN assignment: \<^verbatim>\<open>visualization_utils.py\<close>\<close>

text \<open>
  The module is a set of independent functions that read reward or loss sequences and
  results mappings, compute a mean, a standard deviation or a moving average, and write
  one image or one text file each.

  Conventions of the embedding.
  \<^item> A reward or a loss is a \<^typ>\<open>real\<close>: the exact value of the double. Rounding of
    the IEEE arithmetic and the negative zero are outside the model; numpy's
    \<^verbatim>\<open>nan\<close> (the mean of an empty sequence) is the value \<open>None\<close> of
    \<^typ>\<open>real option\<close>.
  \<^item> A mean or a standard deviation of a results mapping is a \<open>number\<close>: a finite
    value together with its kind, built-in Python number or numpy scalar, since the two
    kinds divide by zero differently; the quotient is a \<open>float_value\<close>, which may be
    infinite or \<^verbatim>\<open>nan\<close>.
  \<^item> An exception is a value of \<open>py_error\<close>; a function that can raise returns
    \<open>py_error + 'a\<close>, and one that also writes returns the error (if any) together with
    the state it leaves behind.
  \<^item> A dict is an association list in insertion order (its keys are distinct). Where a
    function only reads a mapping, the reads are threaded through the mapping, so that
    what the caller holds after the call is a result of the model.
  \<^item> The file system is a map from path strings to nodes; the standard output is the list
    of the lines printed.
  \<^item> The library calls (\<^verbatim>\<open>np.convolve\<close>, \<^verbatim>\<open>np.mean\<close>, \<^verbatim>\<open>np.std\<close>,
    \<^verbatim>\<open>os.makedirs\<close>, \<^verbatim>\<open>open\<close>, \<^verbatim>\<open>savefig\<close>, the format
    specifications \<^verbatim>\<open>.1f\<close> and \<^verbatim>\<open>+.1f\<close>) are modelled by their documented
    behaviour. Of a figure the model keeps the data, labels and titles handed to the
    charting library, not the colours, fonts and sizes.
\<close>

subsection \<open>Errors\<close>

datatype py_error =
    ValueError
  | ZeroDivisionError
  | FileNotFoundError
  | FileExistsError
  | NotADirectoryError
  | IsADirectoryError
  | UnicodeDecodeError
  | JSONDecodeError

subsection \<open>numpy: arrays of numbers\<close>

type_synonym npfloat = "real option"

definition np_ones :: "nat \<Rightarrow> real list" where
  "np_ones n = replicate n 1"

definition np_div :: "real list \<Rightarrow> real \<Rightarrow> real list" where
  "np_div xs c = map (\<lambda>x. x / c) xs"

definition np_arange :: "nat \<Rightarrow> real list" where
  "np_arange n = map real [0..<n]"

definition dot :: "real list \<Rightarrow> real list \<Rightarrow> real" where
  "dot xs ys = sum_list (map2 (*) xs ys)"

text \<open>
  \<^verbatim>\<open>multiarray.correlate(a, v, 'valid')\<close> for \<open>length v \<le> length a\<close>: the kernel slides
  over the positions where it overlaps the signal in full.
\<close>

definition correlate_valid :: "real list \<Rightarrow> real list \<Rightarrow> real list" where
  "correlate_valid a v =
     map (\<lambda>k. dot (take (length v) (drop k a)) v) [0..<length a - length v + 1]"

text \<open>
  \<^verbatim>\<open>np.convolve(a, v, mode='valid')\<close>: the longer argument is the signal, an empty argument
  raises \<^verbatim>\<open>ValueError\<close>, and the result is the correlation with the reversed kernel.
\<close>

definition np_convolve_valid :: "real list \<Rightarrow> real list \<Rightarrow> py_error + real list" where
  "np_convolve_valid a v =
     (let (a', v') = (if length v > length a then (v, a) else (a, v))
      in if length a' = 0 then Inl ValueError
         else if length v' = 0 then Inl ValueError
         else Inr (correlate_valid a' (rev v')))"

text \<open>\<^verbatim>\<open>np.mean\<close> and \<^verbatim>\<open>np.std\<close> (population form, \<^verbatim>\<open>ddof = 0\<close>); \<open>None\<close> is \<^verbatim>\<open>nan\<close>.\<close>

definition np_mean :: "real list \<Rightarrow> npfloat" where
  "np_mean xs = (if xs = [] then None else Some (sum_list xs / real (length xs)))"

definition np_std :: "real list \<Rightarrow> npfloat" where
  "np_std xs =
     (case np_mean xs of
        None \<Rightarrow> None
      | Some m \<Rightarrow> Some (sqrt (sum_list (map (\<lambda>x. \<bar>x - m\<bar> ^ 2) xs) / real (length xs))))"

subsection \<open>Moving-average smoothing\<close>

text \<open>
  Both \<^verbatim>\<open>plot_training_comparison\<close> and \<^verbatim>\<open>plot_loss_curves\<close> set \<^verbatim>\<open>window = 50\<close> and
  smooth with \<^verbatim>\<open>np.convolve(rewards, np.ones(window)/window, mode='valid')\<close>.
\<close>

definition window :: nat where
  "window = 50"

definition smooth :: "real list \<Rightarrow> py_error + real list" where
  "smooth rewards = np_convolve_valid rewards (np_div (np_ones window) (real window))"

subsection \<open>Format specifications\<close>

text \<open>
  \<^verbatim>\<open>format(x, '.df')\<close> and \<^verbatim>\<open>format(x, '+.df')\<close>: the sign, the integer part, and \<open>d\<close>
  decimals of the exact value rounded half to even. A negative value keeps its sign when
  it rounds to zero (\<^verbatim>\<open>'-0.0'\<close>).
\<close>

definition digit_char :: "nat \<Rightarrow> char" where
  "digit_char d = ''0123456789'' ! d"

fun digits :: "nat \<Rightarrow> string" where
  "digits n = (if n < 10 then [digit_char n] else digits (n div 10) @ [digit_char (n mod 10)])"

declare digits.simps [simp del]

definition round_half_even :: "real \<Rightarrow> int" where
  "round_half_even x =
     (let f = \<lfloor>x\<rfloor>; r = x - of_int f
      in if r < 1 / 2 then f
         else if 1 / 2 < r then f + 1
         else if even f then f else f + 1)"

definition format_f :: "bool \<Rightarrow> nat \<Rightarrow> real \<Rightarrow> string" where
  "format_f signed d x =
     (let n = nat (round_half_even (\<bar>x\<bar> * 10 ^ d));
          frac = digits (n mod 10 ^ d)
      in (if x < 0 then ''-'' else if signed then ''+'' else [])
         @ digits (n div 10 ^ d)
         @ (if d = 0 then [] else ''.'' @ replicate (d - length frac) (CHR ''0'') @ frac))"

definition format_np :: "nat \<Rightarrow> npfloat \<Rightarrow> string" where
  "format_np d v = (case v of None \<Rightarrow> ''nan'' | Some x \<Rightarrow> format_f False d x)"

definition np_add :: "npfloat \<Rightarrow> npfloat \<Rightarrow> npfloat" where
  "np_add a b = (case (a, b) of (Some x, Some y) \<Rightarrow> Some (x + y) | _ \<Rightarrow> None)"

definition np_sub :: "npfloat \<Rightarrow> npfloat \<Rightarrow> npfloat" where
  "np_sub a b = (case (a, b) of (Some x, Some y) \<Rightarrow> Some (x - y) | _ \<Rightarrow> None)"

subsection \<open>Figures\<close>

text \<open>
  What a function hands to the charting library: per axes, the artists drawn in order and
  the texts set. \<open>Line None ys l\<close> is \<^verbatim>\<open>ax.plot(ys, label=l)\<close> (drawn against the
  indices \<open>0, 1, ...\<close>) and \<open>Line (Some xs) ys l\<close> is \<^verbatim>\<open>ax.plot(xs, ys, label=l)\<close>.
\<close>

datatype artist =
    Line "nat list option" "real list" string
  | HLine npfloat string
  | VLine npfloat string
  | FillBetween "nat list" npfloat npfloat string
  | Hist "real list" nat
  | Bars "real list" "npfloat list" "real option" "npfloat list" string
  | Annotation string real real

record axes =
  artists :: "artist list"
  xlabel :: string
  ylabel :: string
  title :: string
  xticks :: "real list option"
  xticklabels :: "string list option"
  yscale_log :: bool

type_synonym figure = "axes list"

text \<open>
  \<^verbatim>\<open>ax.plot(x, y)\<close> raises on mismatched shapes; \<^verbatim>\<open>ax.bar(x, height, yerr=...)\<close> raises
  on mismatched shapes and on a negative error (a \<^verbatim>\<open>nan\<close> is let through).
\<close>

definition ax_plot_xy :: "nat list \<Rightarrow> real list \<Rightarrow> string \<Rightarrow> py_error + artist" where
  "ax_plot_xy x y l = (if length x \<noteq> length y then Inl ValueError else Inr (Line (Some x) y l))"

definition negative_error :: "npfloat \<Rightarrow> bool" where
  "negative_error e = (case e of None \<Rightarrow> False | Some v \<Rightarrow> v < 0)"

definition ax_bar ::
  "real list \<Rightarrow> npfloat list \<Rightarrow> real option \<Rightarrow> npfloat list \<Rightarrow> string \<Rightarrow> py_error + artist" where
  "ax_bar x height width yerr l =
     (if length x \<noteq> length height \<or> length yerr \<noteq> length height then Inl ValueError
      else if list_ex negative_error yerr then Inl ValueError
      else Inr (Bars x height width yerr l))"

subsection \<open>File system and standard output\<close>

datatype node = Dir | TextFile string | ImageFile figure

type_synonym filesystem = "string \<Rightarrow> node option"

record world =
  fs :: filesystem
  stdout :: "string list"

fun is_file :: "node option \<Rightarrow> bool" where
  "is_file (Some (TextFile t)) = True"
| "is_file (Some (ImageFile g)) = True"
| "is_file (Some Dir) = False"
| "is_file None = False"

text \<open>
  The directory part of a path is the text before its last \<^verbatim>\<open>/\<close>; it is empty for a name
  in the current (or the root) directory, which always exists.
\<close>

definition dirname :: "string \<Rightarrow> string" where
  "dirname p =
     (if CHR ''/'' \<in> set p then rev (tl (dropWhile (\<lambda>c. c \<noteq> CHR ''/'') (rev p))) else [])"

definition ancestors :: "string \<Rightarrow> string list" where
  "ancestors p = map (\<lambda>i. take i p) (filter (\<lambda>i. 0 < i \<and> p ! i = CHR ''/'') [0..<length p])"

text \<open>
  \<^verbatim>\<open>os.makedirs(d, exist_ok=True)\<close>: creates \<open>d\<close> and the directories above it that are
  missing; an existing directory is accepted, a regular file in the way is an error.
\<close>

definition os_makedirs :: "string \<Rightarrow> filesystem \<Rightarrow> py_error + filesystem" where
  "os_makedirs d m =
     (if d = [] then Inl FileNotFoundError
      else if list_ex (\<lambda>p. is_file (m p)) (ancestors d) then Inl NotADirectoryError
      else if is_file (m d) then Inl FileExistsError
      else Inr (\<lambda>p. if p \<in> set (ancestors d @ [d]) then Some Dir else m p))"

text \<open>
  Opening a path for writing (\<^verbatim>\<open>open(p, 'w')\<close>, and the open inside \<^verbatim>\<open>savefig\<close>) fails on
  the empty path, on a directory, and when the directory part is missing or is a file.
\<close>

definition check_writable :: "string \<Rightarrow> filesystem \<Rightarrow> py_error option" where
  "check_writable p m =
     (if p = [] then Some FileNotFoundError
      else if m p = Some Dir then Some IsADirectoryError
      else if dirname p = [] then None
      else (case m (dirname p) of
              None \<Rightarrow> Some FileNotFoundError
            | Some Dir \<Rightarrow> None
            | Some (TextFile t) \<Rightarrow> Some NotADirectoryError
            | Some (ImageFile g) \<Rightarrow> Some NotADirectoryError))"

definition savefig :: "string \<Rightarrow> figure \<Rightarrow> filesystem \<Rightarrow> py_error + filesystem" where
  "savefig p fig m =
     (case check_writable p m of
        Some e \<Rightarrow> Inl e
      | None \<Rightarrow> Inr (m(p \<mapsto> ImageFile fig)))"

text \<open>\<^verbatim>\<open>open(p, 'w')\<close> truncates the file; the model writes the handle's buffer back on close.\<close>

definition open_write :: "string \<Rightarrow> filesystem \<Rightarrow> py_error + filesystem" where
  "open_write p m =
     (case check_writable p m of
        Some e \<Rightarrow> Inl e
      | None \<Rightarrow> Inr (m(p \<mapsto> TextFile [])))"

definition f_write :: "string \<Rightarrow> string \<Rightarrow> string" where
  "f_write buf s = buf @ s"

text \<open>\<^verbatim>\<open>os.path.exists\<close>: true of files and of directories.\<close>

definition os_path_exists :: "string \<Rightarrow> filesystem \<Rightarrow> bool" where
  "os_path_exists p m = (m p \<noteq> None)"

definition open_read :: "string \<Rightarrow> filesystem \<Rightarrow> py_error + string" where
  "open_read p m =
     (case m p of
        None \<Rightarrow> Inl FileNotFoundError
      | Some Dir \<Rightarrow> Inl IsADirectoryError
      | Some (TextFile t) \<Rightarrow> Inr t
      | Some (ImageFile g) \<Rightarrow> Inl UnicodeDecodeError)"

subsection \<open>\<^verbatim>\<open>load_results\<close>\<close>

text \<open>
  \<^verbatim>\<open>json.load\<close> is a parameter: a parser from the file's text to a value, or a
  \<^verbatim>\<open>JSONDecodeError\<close>. The function's \<^verbatim>\<open>return None\<close> is \<open>Inr None\<close>.
\<close>

definition load_results ::
  "(string \<Rightarrow> py_error + 'j) \<Rightarrow> string \<Rightarrow> filesystem \<Rightarrow> py_error + 'j option" where
  "load_results json_load results_file m =
     (if os_path_exists results_file m then
        (case open_read results_file m of
           Inl e \<Rightarrow> Inl e
         | Inr t \<Rightarrow> (case json_load t of Inl e \<Rightarrow> Inl e | Inr v \<Rightarrow> Inr (Some v)))
      else Inr None)"

subsection \<open>The plotting functions\<close>

text \<open>
  Every plotting function has the same frame: \<^verbatim>\<open>os.makedirs(save_dir, exist_ok=True)\<close>,
  then the figure is drawn (which may raise), then \<^verbatim>\<open>plt.savefig(path)\<close>. An error leaves
  behind what was done before it.
\<close>

definition save_plot ::
  "string \<Rightarrow> string \<Rightarrow> (py_error + figure) \<Rightarrow> world \<Rightarrow> py_error option \<times> world" where
  "save_plot save_dir path drawn w =
     (case os_makedirs save_dir (fs w) of
        Inl e \<Rightarrow> (Some e, w)
      | Inr m1 \<Rightarrow>
          (case drawn of
             Inl e \<Rightarrow> (Some e, w\<lparr>fs := m1\<rparr>)
           | Inr fig \<Rightarrow>
               (case savefig path fig m1 of
                  Inl e \<Rightarrow> (Some e, w\<lparr>fs := m1\<rparr>)
                | Inr m2 \<Rightarrow> (None, w\<lparr>fs := m2\<rparr>))))"

definition training_comparison_figure ::
  "real list \<Rightarrow> real list \<Rightarrow> string \<Rightarrow> py_error + figure" where
  "training_comparison_figure dqn_rewards ddqn_rewards env_name =
     (case smooth dqn_rewards of
        Inl e \<Rightarrow> Inl e
      | Inr dqn_smooth \<Rightarrow>
          (case smooth ddqn_rewards of
             Inl e \<Rightarrow> Inl e
           | Inr ddqn_smooth \<Rightarrow>
               Inr [\<lparr>artists =
                       [Line None dqn_rewards ''DQN (raw)'',
                        Line None dqn_smooth ''DQN (smoothed)'',
                        Line None ddqn_rewards ''DDQN (raw)'',
                        Line None ddqn_smooth ''DDQN (smoothed)''],
                     xlabel = ''Episode'', ylabel = ''Reward'',
                     title = ''Training Curves: '' @ env_name,
                     xticks = None, xticklabels = None, yscale_log = False\<rparr>]))"

definition plot_training_comparison ::
  "real list \<Rightarrow> real list \<Rightarrow> string \<Rightarrow> string \<Rightarrow> world \<Rightarrow> py_error option \<times> world" where
  "plot_training_comparison dqn_rewards ddqn_rewards env_name save_dir =
     save_plot save_dir (save_dir @ ''/'' @ env_name @ ''_training_comparison.png'')
       (training_comparison_figure dqn_rewards ddqn_rewards env_name)"

definition evaluation_stability_figure :: "real list \<Rightarrow> string \<Rightarrow> string \<Rightarrow> py_error + figure" where
  "evaluation_stability_figure eval_rewards env_name algo_name =
     Inr [\<lparr>artists =
             [Line None eval_rewards [],
              HLine (np_mean eval_rewards) (''Mean: '' @ format_np 2 (np_mean eval_rewards)),
              FillBetween [0..<length eval_rewards]
                (np_sub (np_mean eval_rewards) (np_std eval_rewards))
                (np_add (np_mean eval_rewards) (np_std eval_rewards))
                ([CHR 0xC2, CHR 0xB1] @ ''1 Std: '' @ format_np 2 (np_std eval_rewards))],
           xlabel = ''Test Episode'', ylabel = ''Reward'',
           title = algo_name @ '' Stability: '' @ env_name,
           xticks = None, xticklabels = None, yscale_log = False\<rparr>,
          \<lparr>artists = [Hist eval_rewards 20, VLine (np_mean eval_rewards) ''Mean''],
           xlabel = ''Reward'', ylabel = ''Frequency'',
           title = ''Reward Distribution'',
           xticks = None, xticklabels = None, yscale_log = False\<rparr>]"

definition plot_evaluation_stability ::
  "real list \<Rightarrow> string \<Rightarrow> string \<Rightarrow> string \<Rightarrow> world \<Rightarrow> py_error option \<times> world" where
  "plot_evaluation_stability eval_rewards env_name algo_name save_dir =
     save_plot save_dir (save_dir @ ''/'' @ env_name @ ''_'' @ algo_name @ ''_stability.png'')
       (evaluation_stability_figure eval_rewards env_name algo_name)"

text \<open>
  \<^verbatim>\<open>plot_hyperparameter_comparison\<close>. The keys of the sweep are of any linearly ordered
  type, and \<^verbatim>\<open>str\<close> on them is a parameter. \<^verbatim>\<open>sorted(results_dict.items())\<close> sorts the
  (key, rewards) tuples, which Python compares lexicographically; the loop appends to the
  three lists.
\<close>

fun hyper_loop ::
  "('k \<Rightarrow> string) \<Rightarrow> ('k \<times> real list) list
     \<Rightarrow> string list \<times> npfloat list \<times> npfloat list
     \<Rightarrow> string list \<times> npfloat list \<times> npfloat list" where
  "hyper_loop py_str [] acc = acc"
| "hyper_loop py_str ((v, rs) # rest) (param_values, mean_rewards, std_rewards) =
     hyper_loop py_str rest
       (param_values @ [py_str v], mean_rewards @ [np_mean rs], std_rewards @ [np_std rs])"

definition hyperparameter_figure ::
  "('k::linorder \<Rightarrow> string) \<Rightarrow> ('k \<times> real list) list \<Rightarrow> string \<Rightarrow> string
     \<Rightarrow> py_error + figure" where
  "hyperparameter_figure py_str results_dict param_name env_name =
     (let (param_values, mean_rewards, std_rewards) =
            hyper_loop py_str (sort results_dict) ([], [], []);
          x_pos = np_arange (length param_values)
      in case ax_bar x_pos mean_rewards None std_rewards [] of
           Inl e \<Rightarrow> Inl e
         | Inr bars \<Rightarrow>
             Inr [\<lparr>artists = [bars],
                   xlabel = param_name, ylabel = ''Average Reward'',
                   title = ''Effect of '' @ param_name @ '' on '' @ env_name,
                   xticks = Some x_pos, xticklabels = Some param_values,
                   yscale_log = False\<rparr>])"

definition plot_hyperparameter_comparison ::
  "('k::linorder \<Rightarrow> string) \<Rightarrow> ('k \<times> real list) list \<Rightarrow> string \<Rightarrow> string \<Rightarrow> string
     \<Rightarrow> world \<Rightarrow> py_error option \<times> world" where
  "plot_hyperparameter_comparison py_str results_dict param_name env_name save_dir =
     save_plot save_dir (save_dir @ ''/'' @ env_name @ ''_'' @ param_name @ ''_comparison.png'')
       (hyperparameter_figure py_str results_dict param_name env_name)"

subsection \<open>Numbers of a results mapping\<close>

text \<open>
  A mean or a standard deviation of a results mapping is a built-in Python number
  (\<^verbatim>\<open>int\<close> or \<^verbatim>\<open>float\<close>, what \<^verbatim>\<open>json.load\<close> returns) or a numpy scalar
  (\<^verbatim>\<open>np.float64\<close>, what \<^verbatim>\<open>np.mean\<close> returns), in both cases with a finite value. The
  two kinds compare equal when their values are equal, and they format alike, but they
  divide by zero differently: \<^verbatim>\<open>/\<close> between built-in numbers raises
  \<^verbatim>\<open>ZeroDivisionError\<close>, and with a numpy scalar on either side it warns and returns
  \<^verbatim>\<open>inf\<close>, \<^verbatim>\<open>-inf\<close> or \<^verbatim>\<open>nan\<close>. An operation with a numpy operand returns a numpy
  scalar.
\<close>

datatype number = PyNum real | NpNum real

fun num_val :: "number \<Rightarrow> real" where
  "num_val (PyNum x) = x"
| "num_val (NpNum x) = x"

fun is_np :: "number \<Rightarrow> bool" where
  "is_np (PyNum x) = False"
| "is_np (NpNum x) = True"

datatype float_value = Finite real | PosInf | NegInf | NaN

definition py_sub :: "number \<Rightarrow> number \<Rightarrow> number" where
  "py_sub a b =
     (if is_np a \<or> is_np b then NpNum (num_val a - num_val b)
      else PyNum (num_val a - num_val b))"

definition py_abs :: "number \<Rightarrow> number" where
  "py_abs a = (case a of PyNum x \<Rightarrow> PyNum \<bar>x\<bar> | NpNum x \<Rightarrow> NpNum \<bar>x\<bar>)"

text \<open>
  \<^verbatim>\<open>a / b\<close>. The zero divisor is the positive zero (here it is a result of
  \<^verbatim>\<open>abs\<close>), so the sign of a numpy quotient is the sign of \<open>a\<close>.
\<close>

definition py_truediv :: "number \<Rightarrow> number \<Rightarrow> py_error + float_value" where
  "py_truediv a b =
     (if num_val b \<noteq> 0 then Inr (Finite (num_val a / num_val b))
      else if is_np a \<or> is_np b then
        Inr (if 0 < num_val a then PosInf else if num_val a < 0 then NegInf else NaN)
      else Inl ZeroDivisionError)"

text \<open>\<^verbatim>\<open>q * c\<close> for a quotient \<open>q\<close> and a finite \<open>c\<close>.\<close>

definition float_times :: "float_value \<Rightarrow> real \<Rightarrow> float_value" where
  "float_times q c =
     (case q of
        Finite x \<Rightarrow> Finite (x * c)
      | PosInf \<Rightarrow> (if 0 < c then PosInf else if c < 0 then NegInf else NaN)
      | NegInf \<Rightarrow> (if 0 < c then NegInf else if c < 0 then PosInf else NaN)
      | NaN \<Rightarrow> NaN)"

definition format_float :: "bool \<Rightarrow> nat \<Rightarrow> float_value \<Rightarrow> string" where
  "format_float signed d v =
     (case v of
        Finite x \<Rightarrow> format_f signed d x
      | PosInf \<Rightarrow> (if signed then ''+inf'' else ''inf'')
      | NegInf \<Rightarrow> ''-inf''
      | NaN \<Rightarrow> (if signed then ''+nan'' else ''nan''))"

subsection \<open>Results mappings\<close>

text \<open>
  \<^verbatim>\<open>results[env][algo]\<close> is a record \<^verbatim>\<open>{'mean': ..., 'std': ..., 'rewards': [...]}\<close>;
  \<^verbatim>\<open>results[env]\<close> has the keys \<^verbatim>\<open>'DQN'\<close> and \<^verbatim>\<open>'DDQN'\<close>.
\<close>

record algo_stats =
  mean :: number
  std :: number
  rewards :: "real list"

record env_result =
  DQN :: algo_stats
  DDQN :: algo_stats

type_synonym results = "(string \<times> env_result) list"

text \<open>
  \<^verbatim>\<open>autolabel\<close> writes each bar's height, with one decimal, above the bar's centre.
\<close>

definition autolabel :: "real list \<Rightarrow> real list \<Rightarrow> artist list" where
  "autolabel centres heights =
     map (\<lambda>(c, height). Annotation (format_f False 1 height) c height) (zip centres heights)"

definition all_environments_figure :: "results \<Rightarrow> py_error + figure" where
  "all_environments_figure res =
     (let environments = map fst res;
          dqn_means = map (\<lambda>(env, d). num_val (mean (DQN d))) res;
          dqn_stds = map (\<lambda>(env, d). num_val (std (DQN d))) res;
          ddqn_means = map (\<lambda>(env, d). num_val (mean (DDQN d))) res;
          ddqn_stds = map (\<lambda>(env, d). num_val (std (DDQN d))) res;
          x = np_arange (length environments);
          width = 35 / 100;
          x1 = map (\<lambda>c. c - width / 2) x;
          x2 = map (\<lambda>c. c + width / 2) x
      in case ax_bar x1 (map Some dqn_means) (Some width) (map Some dqn_stds) ''DQN'' of
           Inl e \<Rightarrow> Inl e
         | Inr bars1 \<Rightarrow>
             (case ax_bar x2 (map Some ddqn_means) (Some width) (map Some ddqn_stds) ''DDQN'' of
                Inl e \<Rightarrow> Inl e
              | Inr bars2 \<Rightarrow>
                  Inr [\<lparr>artists =
                          [bars1, bars2] @ autolabel x1 dqn_means @ autolabel x2 ddqn_means,
                        xlabel = ''Environment'',
                        ylabel = ''Average Reward (100 episodes)'',
                        title = ''DQN vs DDQN Performance Comparison'',
                        xticks = Some x, xticklabels = Some environments,
                        yscale_log = False\<rparr>]))"

definition plot_all_environments_comparison ::
  "results \<Rightarrow> string \<Rightarrow> world \<Rightarrow> py_error option \<times> world" where
  "plot_all_environments_comparison res save_dir =
     save_plot save_dir (save_dir @ ''/all_environments_comparison.png'')
       (all_environments_figure res)"

text \<open>
  \<^verbatim>\<open>plot_loss_curves\<close>: the guard is \<^verbatim>\<open>if len(losses) > window\<close>.
\<close>

definition loss_artists :: "real list \<Rightarrow> py_error + artist list" where
  "loss_artists losses =
     (if length losses > window then
        (case smooth losses of
           Inl e \<Rightarrow> Inl e
         | Inr smoothed \<Rightarrow>
             (case ax_plot_xy [window - 1..<length losses] smoothed ''Loss (smoothed)'' of
                Inl e \<Rightarrow> Inl e
              | Inr l \<Rightarrow> Inr [Line None losses ''Loss (raw)'', l]))
      else Inr [Line None losses ''Loss''])"

definition loss_curves_figure :: "real list \<Rightarrow> string \<Rightarrow> string \<Rightarrow> py_error + figure" where
  "loss_curves_figure losses env_name algo_name =
     (case loss_artists losses of
        Inl e \<Rightarrow> Inl e
      | Inr drawn \<Rightarrow>
          Inr [\<lparr>artists = drawn,
                xlabel = ''Episode'', ylabel = ''Loss'',
                title = algo_name @ '' Training Loss: '' @ env_name,
                xticks = None, xticklabels = None, yscale_log = True\<rparr>])"

definition plot_loss_curves ::
  "real list \<Rightarrow> string \<Rightarrow> string \<Rightarrow> string \<Rightarrow> world \<Rightarrow> py_error option \<times> world" where
  "plot_loss_curves losses env_name algo_name save_dir =
     save_plot save_dir (save_dir @ ''/'' @ env_name @ ''_'' @ algo_name @ ''_loss.png'')
       (loss_curves_figure losses env_name algo_name)"

subsection \<open>\<^verbatim>\<open>create_summary_table\<close>\<close>

text \<open>The backslash of the table markup, which a string literal cannot hold.\<close>

definition bsl :: string where
  "bsl = [CHR 0x5C]"

definition table_header_lines :: "string list" where
  "table_header_lines =
     [bsl @ ''begin{table}[h]\<newline>'',
      bsl @ ''centering\<newline>'',
      bsl @ ''begin{tabular}{|l|c|c|c|}\<newline>'',
      bsl @ ''hline\<newline>'',
      bsl @ ''textbf{Environment} & '' @ bsl @ ''textbf{DQN} & '' @ bsl @ ''textbf{DDQN} & ''
        @ bsl @ ''textbf{Improvement} '' @ bsl @ bsl @ ''\<newline>'',
      bsl @ ''hline\<newline>'']"

definition table_footer_lines :: "string list" where
  "table_footer_lines =
     [bsl @ ''hline\<newline>'',
      bsl @ ''end{tabular}\<newline>'',
      bsl @ ''caption{Performance Comparison: DQN vs DDQN (Mean $'' @ bsl
        @ ''pm$ Std over 100 episodes)}\<newline>'',
      bsl @ ''label{tab:results}\<newline>'',
      bsl @ ''end{table}\<newline>'']"

text \<open>
  A subscript read \<^verbatim>\<open>obj[key]\<close> gives the value under the key and the object as the
  read leaves it.
\<close>

definition subscript :: "('o \<Rightarrow> 'v) \<Rightarrow> 'o \<Rightarrow> 'v \<times> 'o" where
  "subscript key obj = (key obj, obj)"

text \<open>
  The body of the loop: the four reads of \<^verbatim>\<open>data\<close>, the improvement, and the text of
  the one \<^verbatim>\<open>f.write\<close>; with the result goes \<^verbatim>\<open>data\<close> as the body leaves it.
\<close>

definition table_row :: "string \<Rightarrow> env_result \<Rightarrow> (py_error + string) \<times> env_result" where
  "table_row env_name data0 =
     (let (dqn_mean, data1) = subscript (\<lambda>d. mean (DQN d)) data0;
          (dqn_std, data2) = subscript (\<lambda>d. std (DQN d)) data1;
          (ddqn_mean, data3) = subscript (\<lambda>d. mean (DDQN d)) data2;
          (ddqn_std, data) = subscript (\<lambda>d. std (DDQN d)) data3
      in case py_truediv (py_sub ddqn_mean dqn_mean) (py_abs dqn_mean) of
           Inl e \<Rightarrow> (Inl e, data)
         | Inr q \<Rightarrow>
             (let improvement = float_times q 100
              in (Inr (env_name @ '' & $'' @ format_f False 1 (num_val dqn_mean)
                        @ '' '' @ bsl @ ''pm '' @ format_f False 1 (num_val dqn_std) @ ''$ & ''
                      @ ''$'' @ format_f False 1 (num_val ddqn_mean)
                        @ '' '' @ bsl @ ''pm '' @ format_f False 1 (num_val ddqn_std) @ ''$ & ''
                      @ format_float True 1 improvement @ bsl @ ''% '' @ bsl @ bsl
                      @ ''\<newline>''),
                  data)))"

text \<open>
  \<^verbatim>\<open>for env_name, data in results.items()\<close>, over the handle's buffer: an error stops the
  loop and keeps what was written. With the result goes the mapping as the loop leaves
  it: the entries visited as their bodies left them, the others as they were.
\<close>

fun write_rows :: "results \<Rightarrow> string \<Rightarrow> ((py_error \<times> string) + string) \<times> results" where
  "write_rows [] f = (Inr f, [])"
| "write_rows ((env_name, data) # rest) f =
     (case table_row env_name data of
        (Inl e, data') \<Rightarrow> (Inl (e, f), (env_name, data') # rest)
      | (Inr row, data') \<Rightarrow>
          (case write_rows rest (f_write f row) of
             (outcome, rest') \<Rightarrow> (outcome, (env_name, data') # rest')))"

text \<open>
  The call returns the error raised (if any), the mapping as the caller holds it after
  the call, and the world. The \<^verbatim>\<open>with\<close> block closes the file on every exit; the
  \<^verbatim>\<open>print\<close> is after the block.
\<close>

definition create_summary_table ::
  "results \<Rightarrow> string \<Rightarrow> world \<Rightarrow> py_error option \<times> results \<times> world" where
  "create_summary_table res save_path w =
     (case open_write save_path (fs w) of
        Inl e \<Rightarrow> (Some e, res, w)
      | Inr m0 \<Rightarrow>
          (case write_rows res (foldl f_write [] table_header_lines) of
             (Inl (e, f), res') \<Rightarrow> (Some e, res', w\<lparr>fs := m0(save_path \<mapsto> TextFile f)\<rparr>)
           | (Inr f, res') \<Rightarrow>
               (None, res',
                \<lparr>fs = m0(save_path \<mapsto> TextFile (foldl f_write f table_footer_lines)),
                 stdout = stdout w @ [''LaTeX table saved to '' @ save_path]\<rparr>)))"

subsection \<open>Notions of the specification\<close>

text \<open>
  The improvement percentage and the table row as the specification words them, to be
  compared with what \<open>table_row\<close> computes.
\<close>

definition improvement_pct :: "env_result \<Rightarrow> real" where
  "improvement_pct data =
     (num_val (mean (DDQN data)) - num_val (mean (DQN data))) / \<bar>num_val (mean (DQN data))\<bar>
     * 100"

definition row_text :: "string \<Rightarrow> env_result \<Rightarrow> string \<Rightarrow> string" where
  "row_text env_name data improvement_shown =
     env_name
     @ '' & $'' @ format_f False 1 (num_val (mean (DQN data))) @ '' '' @ bsl @ ''pm ''
       @ format_f False 1 (num_val (std (DQN data))) @ ''$''
     @ '' & $'' @ format_f False 1 (num_val (mean (DDQN data))) @ '' '' @ bsl @ ''pm ''
       @ format_f False 1 (num_val (std (DDQN data))) @ ''$''
     @ '' & '' @ improvement_shown @ bsl @ ''% '' @ bsl @ bsl
     @ ''\<newline>''"

definition expected_row :: "string \<Rightarrow> env_result \<Rightarrow> string" where
  "expected_row env_name data =
     row_text env_name data (format_f True 1 (improvement_pct data))"

definition expected_rows :: "results \<Rightarrow> string list" where
  "expected_rows res = map (\<lambda>(env_name, data). expected_row env_name data) res"


definition nonzero_dqn_means :: "results \<Rightarrow> bool" where
  "nonzero_dqn_means res = list_all (\<lambda>(env_name, data). num_val (mean (DQN data)) \<noteq> 0) res"

text \<open>
  The entries at which the division raises: a zero DQN mean, and built-in numbers as both
  means. With a zero DQN mean and a numpy scalar among the two means the quotient is
  infinite or \<^verbatim>\<open>nan\<close>, and the row shows it.
\<close>

definition zero_division_raises :: "string \<times> env_result \<Rightarrow> bool" where
  "zero_division_raises entry =
     (num_val (mean (DQN (snd entry))) = 0
      \<and> \<not> is_np (mean (DQN (snd entry))) \<and> \<not> is_np (mean (DDQN (snd entry))))"

definition improvement_float :: "env_result \<Rightarrow> float_value" where
  "improvement_float data =
     (if num_val (mean (DQN data)) \<noteq> 0 then Finite (improvement_pct data)
      else if 0 < num_val (mean (DDQN data)) then PosInf
      else if num_val (mean (DDQN data)) < 0 then NegInf
      else NaN)"

definition written_row :: "string \<times> env_result \<Rightarrow> string" where
  "written_row entry =
     row_text (fst entry) (snd entry) (format_float True 1 (improvement_float (snd entry)))"

text \<open>Non-negative standard deviations, as an error bar needs them.\<close>

definition nonneg_stds :: "results \<Rightarrow> bool" where
  "nonneg_stds res =
     list_all (\<lambda>(env_name, data). 0 \<le> num_val (std (DQN data)) \<and> 0 \<le> num_val (std (DDQN data)))
       res"

text \<open>
  What makes the target of a plot well formed: a non-empty directory name with no regular
  file at it or above it, a file name (the interpolated names) without a path separator,
  and no directory at the path of the image.
\<close>

definition plot_target_ok :: "string \<Rightarrow> string \<Rightarrow> world \<Rightarrow> bool" where
  "plot_target_ok save_dir file_name w =
     (save_dir \<noteq> []
      \<and> CHR ''/'' \<notin> set file_name
      \<and> \<not> list_ex (\<lambda>p. is_file (fs w p)) (ancestors save_dir)
      \<and> \<not> is_file (fs w save_dir)
      \<and> fs w (save_dir @ ''/'' @ file_name) \<noteq> Some Dir)"

text \<open>
  One image was written at \<open>path\<close> and the directory exists: no other regular file was
  created, changed or removed, no directory was removed, and nothing was printed.
\<close>

definition wrote_one_image :: "world \<Rightarrow> world \<Rightarrow> string \<Rightarrow> string \<Rightarrow> bool" where
  "wrote_one_image w w' save_dir path =
     ((\<exists>fig. fs w' path = Some (ImageFile fig))
      \<and> fs w' save_dir = Some Dir
      \<and> (\<forall>q. q \<noteq> path \<longrightarrow> is_file (fs w' q) = is_file (fs w q))
      \<and> (\<forall>q. q \<noteq> path \<and> is_file (fs w q) \<longrightarrow> fs w' q = fs w q)
      \<and> (\<forall>q. fs w q = Some Dir \<longrightarrow> fs w' q = Some Dir)
      \<and> stdout w' = stdout w)"

section \<open>Properties\<close>

subsection \<open>Smoothing\<close>

lemma dot_replicate:
  "length xs = n \<Longrightarrow> dot xs (replicate n c) = sum_list xs * c"
proof (induction xs arbitrary: n)
  case Nil
  then show ?case by (simp add: dot_def)
next
  case (Cons x xs)
  then obtain m where "n = Suc m" by (cases n) auto
  with Cons show ?case by (auto simp: dot_def algebra_simps)
qed

lemma smoothing_kernel_rev:
  "rev (np_div (np_ones window) (real window)) = replicate window (1 / real window)"
  by (simp add: np_div_def np_ones_def)

lemma smoothing_kernel_length:
  "length (np_div (np_ones window) (real window)) = window"
  by (simp add: np_div_def np_ones_def)

lemma smooth_long:
  assumes "window \<le> length xs"
  shows "smooth xs = Inr (correlate_valid xs (replicate window (1 / real window)))"
proof -
  let ?ker = "np_div (np_ones window) (real window)"
  have w: "0 < window" by (simp add: window_def)
  have ne: "xs \<noteq> []" using assms w by auto
  have kne: "?ker \<noteq> []" using smoothing_kernel_length w by auto
  show ?thesis
    using assms ne kne smoothing_kernel_length
    by (simp add: smooth_def np_convolve_valid_def smoothing_kernel_rev)
qed

lemma correlate_uniform_nth:
  assumes "window \<le> length xs" and "k < length xs - window + 1"
  shows "correlate_valid xs (replicate window (1 / real window)) ! k
           = sum_list (take window (drop k xs)) / real window"
proof -
  have "length (take window (drop k xs)) = window" using assms by auto
  then have "dot (take window (drop k xs)) (replicate window (1 / real window))
               = sum_list (take window (drop k xs)) * (1 / real window)"
    by (rule dot_replicate)
  then show ?thesis using assms(2)
    by (simp add: correlate_valid_def del: upt_Suc)
qed

text \<open>
  C1. For an input at least as long as the window (50), the smoothing returns (it does
  not raise) a sequence of length \<open>len(input) - window + 1\<close> whose \<open>k\<close>-th value is the
  arithmetic mean of the 50 consecutive samples \<open>input[k], ..., input[k + 49]\<close>; an input of
  length 500 gives 451 values.
\<close>

theorem smoothing_valid_window_mean:
  assumes "window \<le> length xs"
  shows "window = 50 \<and>
         (\<exists>ys. smooth xs = Inr ys
            \<and> length ys = length xs - window + 1
            \<and> (\<forall>k<length ys.
                  length (take window (drop k xs)) = window
                  \<and> ys ! k = sum_list (take window (drop k xs)) / real window
                  \<and> Some (ys ! k) = np_mean (take window (drop k xs)))
            \<and> (length xs = 500 \<longrightarrow> length ys = 451))"
proof -
  let ?ys = "correlate_valid xs (replicate window (1 / real window))"
  have w: "window = 50" by (simp add: window_def)
  have sm: "smooth xs = Inr ?ys" using assms by (rule smooth_long)
  have len: "length ?ys = length xs - window + 1"
    by (simp add: correlate_valid_def)
  have val: "length (take window (drop k xs)) = window
             \<and> ?ys ! k = sum_list (take window (drop k xs)) / real window
             \<and> Some (?ys ! k) = np_mean (take window (drop k xs))"
    if "k < length ?ys" for k
  proof -
    have k: "k < length xs - window + 1" using that len by simp
    have l: "length (take window (drop k xs)) = window" using k assms by auto
    then have ne: "take window (drop k xs) \<noteq> []" using w by auto
    have v: "?ys ! k = sum_list (take window (drop k xs)) / real window"
      using assms k by (rule correlate_uniform_nth)
    have "np_mean (take window (drop k xs)) = Some (sum_list (take window (drop k xs)) / real window)"
      using ne l unfolding np_mean_def by simp
    with l v show ?thesis by simp
  qed
  have "length xs = 500 \<longrightarrow> length ?ys = 451" using len by (simp add: window_def)
  with w sm len val show ?thesis by blast
qed

theorem smoothing_valid_window_mean_witness:
  "window \<le> length (map real [0..<500])
   \<and> (\<exists>ys. smooth (map real [0..<500]) = Inr ys \<and> length ys = 451)"
proof -
  have h: "window \<le> length (map real [0..<500])" by (simp add: window_def)
  from smoothing_valid_window_mean [OF h] show ?thesis using h by auto
qed

subsection \<open>Number formatting\<close>

lemma round_half_even_error: "\<bar>of_int (round_half_even x) - x\<bar> \<le> 1 / 2"
  unfolding round_half_even_def Let_def by (auto; linarith)

lemma round_half_even_nonneg: "0 \<le> x \<Longrightarrow> 0 \<le> round_half_even x"
  unfolding round_half_even_def Let_def by auto

lemma digits_small: "n < 10 \<Longrightarrow> digits n = [digit_char n]"
  by (simp add: digits.simps)

lemma format_f_one_decimal:
  fixes y :: real
  defines "n \<equiv> nat (round_half_even (\<bar>y\<bar> * 10))"
  shows "format_f signed 1 y =
           (if y < 0 then ''-'' else if signed then ''+'' else [])
           @ digits (n div 10) @ ''.'' @ [digit_char (n mod 10)]"
    and "\<bar>(real (n div 10) * 10 + real (n mod 10)) / 10 - \<bar>y\<bar>\<bar> \<le> 1 / 20"
proof -
  show "format_f signed 1 y =
           (if y < 0 then ''-'' else if signed then ''+'' else [])
           @ digits (n div 10) @ ''.'' @ [digit_char (n mod 10)]"
    by (simp add: format_f_def Let_def n_def digits_small)
  have nn: "0 \<le> round_half_even (\<bar>y\<bar> * 10)" by (rule round_half_even_nonneg) simp
  have "real (n div 10) * 10 + real (n mod 10) = real n"
    by (metis mult.commute of_nat_add of_nat_mult of_nat_numeral div_mult_mod_eq mult.commute)
  moreover have "real n = of_int (round_half_even (\<bar>y\<bar> * 10))"
    using nn by (simp add: n_def)
  moreover have "\<bar>of_int (round_half_even (\<bar>y\<bar> * 10)) - \<bar>y\<bar> * 10\<bar> \<le> 1 / 2"
    by (rule round_half_even_error)
  ultimately show "\<bar>(real (n div 10) * 10 + real (n mod 10)) / 10 - \<bar>y\<bar>\<bar> \<le> 1 / 20"
    by (simp add: field_simps abs_le_iff)
qed

subsection \<open>The summary table\<close>

lemma foldl_f_write: "foldl f_write f ls = f @ concat ls"
  by (induction ls arbitrary: f) (simp_all add: f_write_def)

lemma num_val_py_abs: "num_val (py_abs a) = \<bar>num_val a\<bar>"
  by (cases a) (simp_all add: py_abs_def)

lemma is_np_py_abs: "is_np (py_abs a) = is_np a"
  by (cases a) (simp_all add: py_abs_def)

lemma num_val_py_sub: "num_val (py_sub a b) = num_val a - num_val b"
  by (simp add: py_sub_def)

lemma is_np_py_sub: "is_np (py_sub a b) = (is_np a \<or> is_np b)"
  by (simp add: py_sub_def)

lemma improvement_quotient:
  "py_truediv (py_sub (mean (DDQN data)) (mean (DQN data))) (py_abs (mean (DQN data))) =
     (if zero_division_raises (env_name, data) then Inl ZeroDivisionError
      else Inr (if num_val (mean (DQN data)) \<noteq> 0
                then Finite ((num_val (mean (DDQN data)) - num_val (mean (DQN data)))
                             / \<bar>num_val (mean (DQN data))\<bar>)
                else if 0 < num_val (mean (DDQN data)) then PosInf
                else if num_val (mean (DDQN data)) < 0 then NegInf
                else NaN))"
  by (auto simp: py_truediv_def zero_division_raises_def num_val_py_abs is_np_py_abs
        num_val_py_sub is_np_py_sub)

lemma table_row_general:
  "table_row env_name data =
     (if zero_division_raises (env_name, data) then Inl ZeroDivisionError
      else Inr (written_row (env_name, data)), data)"
  unfolding table_row_def subscript_def Let_def split_conv
    improvement_quotient [of data env_name]
  by (simp add: written_row_def row_text_def improvement_float_def improvement_pct_def
        float_times_def format_float_def)

lemma written_row_nonzero:
  "num_val (mean (DQN data)) \<noteq> 0 \<Longrightarrow> written_row (env_name, data) = expected_row env_name data"
  by (simp add: written_row_def expected_row_def improvement_float_def format_float_def)

lemma table_row_ok:
  "num_val (mean (DQN data)) \<noteq> 0 \<Longrightarrow>
     table_row env_name data = (Inr (expected_row env_name data), data)"
  by (simp add: table_row_general written_row_nonzero zero_division_raises_def)

lemma table_row_zero:
  "zero_division_raises (env_name, data) \<Longrightarrow>
     table_row env_name data = (Inl ZeroDivisionError, data)"
  by (simp add: table_row_general)

lemma write_rows_general:
  "write_rows res f =
     (if list_ex zero_division_raises res
      then Inl (ZeroDivisionError,
                f @ concat (map written_row
                              (takeWhile (\<lambda>entry. \<not> zero_division_raises entry) res)))
      else Inr (f @ concat (map written_row res)),
      res)"
proof (induction res arbitrary: f)
  case Nil
  then show ?case by simp
next
  case (Cons entry res)
  obtain env_name data where e: "entry = (env_name, data)" by (cases entry)
  show ?case
  proof (cases "zero_division_raises (env_name, data)")
    case True
    then show ?thesis unfolding e by (simp add: table_row_general)
  next
    case False
    then show ?thesis unfolding e
      by (simp add: table_row_general Cons.IH f_write_def)
  qed
qed

lemma nonzero_never_raises:
  "nonzero_dqn_means res \<Longrightarrow> \<not> list_ex zero_division_raises res"
  by (auto simp: nonzero_dqn_means_def zero_division_raises_def list_all_iff list_ex_iff)

lemma written_rows_nonzero:
  "nonzero_dqn_means res \<Longrightarrow> map written_row res = expected_rows res"
  by (induction res) (auto simp: nonzero_dqn_means_def expected_rows_def written_row_nonzero)

lemma write_rows_ok:
  "nonzero_dqn_means res \<Longrightarrow> write_rows res f = (Inr (f @ concat (expected_rows res)), res)"
  by (simp add: write_rows_general nonzero_never_raises written_rows_nonzero)

lemma create_summary_table_general:
  assumes "check_writable save_path (fs w) = None"
  shows "create_summary_table res save_path w =
           (if list_ex zero_division_raises res
            then (Some ZeroDivisionError, res,
                  w\<lparr>fs := (fs w)(save_path \<mapsto>
                     TextFile (concat table_header_lines
                       @ concat (map written_row
                           (takeWhile (\<lambda>entry. \<not> zero_division_raises entry) res))))\<rparr>)
            else (None, res,
                  \<lparr>fs = (fs w)(save_path \<mapsto>
                     TextFile (concat table_header_lines @ concat (map written_row res)
                               @ concat table_footer_lines)),
                   stdout = stdout w @ [''LaTeX table saved to '' @ save_path]\<rparr>))"
  using assms
  by (simp add: create_summary_table_def open_write_def write_rows_general foldl_f_write)

lemma create_summary_table_ok:
  assumes "check_writable save_path (fs w) = None" and "nonzero_dqn_means res"
  shows "create_summary_table res save_path w =
           (None, res,
            \<lparr>fs = (fs w)(save_path \<mapsto>
                     TextFile (concat table_header_lines @ concat (expected_rows res)
                               @ concat table_footer_lines)),
             stdout = stdout w @ [''LaTeX table saved to '' @ save_path]\<rparr>)"
  using create_summary_table_general [OF assms(1), of res] assms(2)
  by (simp add: nonzero_never_raises written_rows_nonzero)

lemma create_summary_table_keeps:
  "fst (snd (create_summary_table res save_path w)) = res"
  by (simp add: create_summary_table_def open_write_def write_rows_general
           split: option.splits)




text \<open>
  C2. When every environment has a non-zero DQN mean (and the file can be opened),
  \<open>create_summary_table\<close> returns normally and the file holds, between the header and the
  footer, one row per environment; the row of an environment ends with its improvement
  percentage \<open>(ddqn_mean - dqn_mean) / |dqn_mean| * 100\<close>, written as a sign (\<open>+\<close> or
  \<open>-\<close>), the integer digits, a point and one decimal digit, within 0.05 of the value. The
  example of the specification (DQN 100.0, DDQN 120.0, row with \<open>+20.0\<close>) is the witness.
\<close>

theorem summary_table_improvement:
  assumes "check_writable save_path (fs w) = None" and "nonzero_dqn_means res"
  shows "(\<exists>w'. create_summary_table res save_path w = (None, res, w')
            \<and> fs w' save_path =
                Some (TextFile (concat table_header_lines @ concat (expected_rows res)
                                @ concat table_footer_lines)))
       \<and> (\<forall>(env_name, data) \<in> set res.
            num_val (mean (DQN data)) \<noteq> 0
            \<and> table_row env_name data = (Inr (expected_row env_name data), data)
            \<and> improvement_pct data
                = (num_val (mean (DDQN data)) - num_val (mean (DQN data))) / \<bar>num_val (mean (DQN data))\<bar> * 100
            \<and> (\<exists>front. expected_row env_name data
                  = front @ format_f True 1 (improvement_pct data)
                    @ bsl @ ''% '' @ bsl @ bsl @ ''\<newline>'')
            \<and> (\<exists>ip dg. dg < 10
                  \<and> format_f True 1 (improvement_pct data)
                      = (if improvement_pct data < 0 then ''-'' else ''+'')
                        @ digits ip @ ''.'' @ [digit_char dg]
                  \<and> \<bar>(real ip * 10 + real dg) / 10 - \<bar>improvement_pct data\<bar>\<bar> \<le> 1 / 20))"
proof -
  have call: "\<exists>w'. create_summary_table res save_path w = (None, res, w')
            \<and> fs w' save_path =
                Some (TextFile (concat table_header_lines @ concat (expected_rows res)
                                @ concat table_footer_lines))"
    using create_summary_table_ok [OF assms] by simp
  have row: "num_val (mean (DQN data)) \<noteq> 0
            \<and> table_row env_name data = (Inr (expected_row env_name data), data)
            \<and> improvement_pct data
                = (num_val (mean (DDQN data)) - num_val (mean (DQN data))) / \<bar>num_val (mean (DQN data))\<bar> * 100
            \<and> (\<exists>front. expected_row env_name data
                  = front @ format_f True 1 (improvement_pct data)
                    @ bsl @ ''% '' @ bsl @ bsl @ ''\<newline>'')
            \<and> (\<exists>ip dg. dg < 10
                  \<and> format_f True 1 (improvement_pct data)
                      = (if improvement_pct data < 0 then ''-'' else ''+'')
                        @ digits ip @ ''.'' @ [digit_char dg]
                  \<and> \<bar>(real ip * 10 + real dg) / 10 - \<bar>improvement_pct data\<bar>\<bar> \<le> 1 / 20)"
    if "(env_name, data) \<in> set res" for env_name data
  proof -
    let ?y = "improvement_pct data"
    let ?n = "nat (round_half_even (\<bar>?y\<bar> * 10))"
    have nz: "num_val (mean (DQN data)) \<noteq> 0"
      using that assms(2) by (auto simp: nonzero_dqn_means_def list_all_iff)
    have tr: "table_row env_name data = (Inr (expected_row env_name data), data)"
      using nz by (rule table_row_ok)
    have fr: "\<exists>front. expected_row env_name data
                  = front @ format_f True 1 ?y @ bsl @ ''% '' @ bsl @ bsl @ ''\<newline>''"
      unfolding expected_row_def row_text_def by (metis append.assoc)
    have "?n mod 10 < 10" by simp
    moreover have "format_f True 1 ?y
                     = (if ?y < 0 then ''-'' else ''+'') @ digits (?n div 10) @ ''.''
                       @ [digit_char (?n mod 10)]"
      using format_f_one_decimal(1) [of True ?y] by simp
    moreover have "\<bar>(real (?n div 10) * 10 + real (?n mod 10)) / 10 - \<bar>?y\<bar>\<bar> \<le> 1 / 20"
      by (rule format_f_one_decimal(2))
    ultimately have sh: "\<exists>ip dg. dg < 10
                  \<and> format_f True 1 ?y
                      = (if ?y < 0 then ''-'' else ''+'') @ digits ip @ ''.'' @ [digit_char dg]
                  \<and> \<bar>(real ip * 10 + real dg) / 10 - \<bar>?y\<bar>\<bar> \<le> 1 / 20"
      by blast
    show ?thesis using nz tr fr sh by (simp add: improvement_pct_def)
  qed
  from call row show ?thesis by blast
qed

theorem summary_table_improvement_witness:
  "check_writable ''summary_table.txt'' (fs \<lparr>fs = Map.empty, stdout = []\<rparr>) = None
   \<and> nonzero_dqn_means
        [(''CartPole-v1'', \<lparr>DQN = \<lparr>mean = PyNum 100, std = PyNum 5, rewards = []\<rparr>,
                            DDQN = \<lparr>mean = PyNum 120, std = PyNum 4, rewards = []\<rparr>\<rparr>)]
   \<and> (\<exists>w'. create_summary_table
              [(''CartPole-v1'', \<lparr>DQN = \<lparr>mean = PyNum 100, std = PyNum 5, rewards = []\<rparr>,
                                  DDQN = \<lparr>mean = PyNum 120, std = PyNum 4, rewards = []\<rparr>\<rparr>)]
              ''summary_table.txt'' \<lparr>fs = Map.empty, stdout = []\<rparr>
            = (None,
               [(''CartPole-v1'', \<lparr>DQN = \<lparr>mean = PyNum 100, std = PyNum 5, rewards = []\<rparr>,
                                   DDQN = \<lparr>mean = PyNum 120, std = PyNum 4, rewards = []\<rparr>\<rparr>)], w')
          \<and> fs w' ''summary_table.txt'' =
              Some (TextFile (concat table_header_lines
                @ ''CartPole-v1 & $100.0 '' @ bsl @ ''pm 5.0$ & $120.0 '' @ bsl
                @ ''pm 4.0$ & +20.0'' @ bsl @ ''% '' @ bsl @ bsl @ ''\<newline>''
                @ concat table_footer_lines)))"
proof -
  let ?res = "[(''CartPole-v1'', \<lparr>DQN = \<lparr>mean = PyNum 100, std = PyNum 5, rewards = []\<rparr>,
                                 DDQN = \<lparr>mean = PyNum 120, std = PyNum 4, rewards = []\<rparr>\<rparr>)]"
  have h1: "check_writable ''summary_table.txt'' (fs \<lparr>fs = Map.empty, stdout = []\<rparr>) = None"
    by (simp add: check_writable_def dirname_def)
  have h2: "nonzero_dqn_means ?res" by (simp add: nonzero_dqn_means_def)
  have rows: "concat (expected_rows ?res)
      = ''CartPole-v1 & $100.0 '' @ bsl @ ''pm 5.0$ & $120.0 '' @ bsl
        @ ''pm 4.0$ & +20.0'' @ bsl @ ''% '' @ bsl @ bsl @ ''\<newline>''"
    by (simp add: expected_rows_def expected_row_def row_text_def improvement_pct_def format_f_def
          round_half_even_def digits.simps digit_char_def)
  from summary_table_improvement [OF h1 h2] show ?thesis
    using h1 h2 unfolding rows by (simp add: append_assoc)
qed




lemma digit_char_range: "k < 10 \<Longrightarrow> digit_char k \<in> set ''0123456789''"
  unfolding digit_char_def by (rule nth_mem) simp

lemma digits_chars: "set (digits n) \<subseteq> set ''0123456789''"
proof (induction n rule: digits.induct)
  case (1 n)
  show ?case
  proof (cases "n < 10")
    case True
    then show ?thesis using digit_char_range [of n] by (simp add: digits.simps [of n])
  next
    case False
    have "n mod 10 < 10" by simp
    then have "digit_char (n mod 10) \<in> set ''0123456789''" by (rule digit_char_range)
    with False 1 show ?thesis by (simp add: digits.simps [of n])
  qed
qed

lemma format_f_no_newline: "CHR ''\<newline>'' \<notin> set (format_f signed 1 y)"
proof -
  let ?n = "nat (round_half_even (\<bar>y\<bar> * 10))"
  have a: "CHR ''\<newline>'' \<notin> set (digits (?n div 10))" using digits_chars [of "?n div 10"] by auto
  have "?n mod 10 < 10" by simp
  then have "digit_char (?n mod 10) \<in> set ''0123456789''" by (rule digit_char_range)
  then have b: "digit_char (?n mod 10) \<noteq> CHR ''\<newline>''" by auto
  have "set (format_f signed 1 y)
          \<subseteq> {CHR ''-'', CHR ''+'', CHR ''.'', digit_char (?n mod 10)} \<union> set (digits (?n div 10))"
    by (subst format_f_one_decimal(1)) auto
  with a b show ?thesis by auto
qed

lemma expected_row_newlines:
  "CHR ''\<newline>'' \<notin> set env_name \<Longrightarrow>
     length (filter (\<lambda>c. c = CHR ''\<newline>'') (expected_row env_name data)) = 1"
  using format_f_no_newline
  by (auto simp: expected_row_def row_text_def bsl_def filter_id_conv filter_empty_conv)

lemma expected_rows_newlines:
  "list_all (\<lambda>(env_name, data). CHR ''\<newline>'' \<notin> set env_name) res \<Longrightarrow>
     length (filter (\<lambda>c. c = CHR ''\<newline>'') (concat (expected_rows res))) = length res"
proof (induction res)
  case Nil
  then show ?case by (simp add: expected_rows_def)
next
  case (Cons e res)
  obtain n d where e: "e = (n, d)" by (cases e)
  with Cons.prems have "CHR ''\<newline>'' \<notin> set n" by simp
  then have "length (filter (\<lambda>c. c = CHR ''\<newline>'') (expected_row n d)) = 1"
    by (rule expected_row_newlines)
  moreover from Cons have
    "length (filter (\<lambda>c. c = CHR ''\<newline>'') (concat (expected_rows res))) = length res"
    by simp
  ultimately show ?case using e by (simp add: expected_rows_def)
qed

lemma header_newlines:
  "length (filter (\<lambda>c. c = CHR ''\<newline>'') (concat table_header_lines)) = 6"
  by (simp add: table_header_lines_def bsl_def)

lemma footer_newlines:
  "length (filter (\<lambda>c. c = CHR ''\<newline>'') (concat table_footer_lines)) = 5"
  by (simp add: table_footer_lines_def bsl_def)

text \<open>
  C3, as amended. Given a file that can be opened, \<open>create_summary_table\<close> ends in
  \<open>ZeroDivisionError\<close> exactly when the mapping has an environment with a zero DQN mean
  whose DQN and DDQN means are both built-in Python numbers: the error is the one the
  division of the improvement computation raises, nothing catches or replaces it, the
  confirmation line is not printed, and the file is left with the header and the rows
  before that environment. With a zero DQN mean and a numpy scalar among the two means
  the division returns \<open>inf\<close>, \<open>-inf\<close> or \<open>nan\<close>, the row is written, and the call goes on.
\<close>

theorem summary_table_zero_division:
  assumes "check_writable save_path (fs w) = None"
  shows "(list_ex zero_division_raises res \<longrightarrow>
            (\<exists>w'. create_summary_table res save_path w = (Some ZeroDivisionError, res, w')
               \<and> stdout w' = stdout w
               \<and> fs w' = (fs w)(save_path \<mapsto>
                    TextFile (concat table_header_lines
                      @ concat (map written_row
                          (takeWhile (\<lambda>entry. \<not> zero_division_raises entry) res))))))
       \<and> (\<not> list_ex zero_division_raises res \<longrightarrow>
            (\<exists>w'. create_summary_table res save_path w = (None, res, w')
               \<and> stdout w' = stdout w @ [''LaTeX table saved to '' @ save_path]
               \<and> fs w' = (fs w)(save_path \<mapsto>
                    TextFile (concat table_header_lines @ concat (map written_row res)
                              @ concat table_footer_lines))))
       \<and> (\<forall>(env_name, data) \<in> set res.
            zero_division_raises (env_name, data)
              = (num_val (mean (DQN data)) = 0
                 \<and> \<not> is_np (mean (DQN data)) \<and> \<not> is_np (mean (DDQN data)))
            \<and> (zero_division_raises (env_name, data) \<longrightarrow>
                  py_truediv (py_sub (mean (DDQN data)) (mean (DQN data)))
                             (py_abs (mean (DQN data))) = Inl ZeroDivisionError
                  \<and> table_row env_name data = (Inl ZeroDivisionError, data))
            \<and> (num_val (mean (DQN data)) = 0 \<and> \<not> zero_division_raises (env_name, data) \<longrightarrow>
                  (\<exists>q. py_truediv (py_sub (mean (DDQN data)) (mean (DQN data)))
                                  (py_abs (mean (DQN data))) = Inr q
                       \<and> (q = PosInf \<or> q = NegInf \<or> q = NaN))
                  \<and> table_row env_name data = (Inr (written_row (env_name, data)), data)))"
proof -
  note g = create_summary_table_general [OF assms, of res]
  have raising: "\<exists>w'. create_summary_table res save_path w = (Some ZeroDivisionError, res, w')
               \<and> stdout w' = stdout w
               \<and> fs w' = (fs w)(save_path \<mapsto>
                    TextFile (concat table_header_lines
                      @ concat (map written_row
                          (takeWhile (\<lambda>entry. \<not> zero_division_raises entry) res))))"
    if "list_ex zero_division_raises res"
    using g that by simp
  have returning: "\<exists>w'. create_summary_table res save_path w = (None, res, w')
               \<and> stdout w' = stdout w @ [''LaTeX table saved to '' @ save_path]
               \<and> fs w' = (fs w)(save_path \<mapsto>
                    TextFile (concat table_header_lines @ concat (map written_row res)
                              @ concat table_footer_lines))"
    if "\<not> list_ex zero_division_raises res"
    using g that by simp
  have entries: "zero_division_raises (env_name, data)
              = (num_val (mean (DQN data)) = 0
                 \<and> \<not> is_np (mean (DQN data)) \<and> \<not> is_np (mean (DDQN data)))
            \<and> (zero_division_raises (env_name, data) \<longrightarrow>
                  py_truediv (py_sub (mean (DDQN data)) (mean (DQN data)))
                             (py_abs (mean (DQN data))) = Inl ZeroDivisionError
                  \<and> table_row env_name data = (Inl ZeroDivisionError, data))
            \<and> (num_val (mean (DQN data)) = 0 \<and> \<not> zero_division_raises (env_name, data) \<longrightarrow>
                  (\<exists>q. py_truediv (py_sub (mean (DDQN data)) (mean (DQN data)))
                                  (py_abs (mean (DQN data))) = Inr q
                       \<and> (q = PosInf \<or> q = NegInf \<or> q = NaN))
                  \<and> table_row env_name data = (Inr (written_row (env_name, data)), data))"
    for env_name data
    by (simp add: improvement_quotient [of data env_name] table_row_general)
       (simp add: zero_division_raises_def)
  from raising returning entries show ?thesis by blast
qed

theorem summary_table_zero_division_witness:
  "check_writable ''summary_table.txt'' (fs \<lparr>fs = Map.empty, stdout = []\<rparr>) = None
   \<and> list_ex zero_division_raises
        [(''CartPole-v1'', \<lparr>DQN = \<lparr>mean = PyNum 100, std = PyNum 5, rewards = []\<rparr>,
                            DDQN = \<lparr>mean = PyNum 120, std = PyNum 4, rewards = []\<rparr>\<rparr>),
         (''Acrobot-v1'', \<lparr>DQN = \<lparr>mean = PyNum 0, std = PyNum 1, rewards = []\<rparr>,
                           DDQN = \<lparr>mean = PyNum 3, std = PyNum 1, rewards = []\<rparr>\<rparr>)]
   \<and> fst (create_summary_table
            [(''CartPole-v1'', \<lparr>DQN = \<lparr>mean = PyNum 100, std = PyNum 5, rewards = []\<rparr>,
                                DDQN = \<lparr>mean = PyNum 120, std = PyNum 4, rewards = []\<rparr>\<rparr>),
             (''Acrobot-v1'', \<lparr>DQN = \<lparr>mean = PyNum 0, std = PyNum 1, rewards = []\<rparr>,
                               DDQN = \<lparr>mean = PyNum 3, std = PyNum 1, rewards = []\<rparr>\<rparr>)]
            ''summary_table.txt'' \<lparr>fs = Map.empty, stdout = []\<rparr>)
       = Some ZeroDivisionError
   \<and> \<not> list_ex zero_division_raises
        [(''Acrobot-v1'', \<lparr>DQN = \<lparr>mean = NpNum 0, std = NpNum 1, rewards = []\<rparr>,
                           DDQN = \<lparr>mean = NpNum 3, std = NpNum 1, rewards = []\<rparr>\<rparr>)]
   \<and> fst (create_summary_table
            [(''Acrobot-v1'', \<lparr>DQN = \<lparr>mean = NpNum 0, std = NpNum 1, rewards = []\<rparr>,
                               DDQN = \<lparr>mean = NpNum 3, std = NpNum 1, rewards = []\<rparr>\<rparr>)]
            ''summary_table.txt'' \<lparr>fs = Map.empty, stdout = []\<rparr>)
       = None"
proof -
  let ?py = "[(''CartPole-v1'', \<lparr>DQN = \<lparr>mean = PyNum 100, std = PyNum 5, rewards = []\<rparr>,
                                DDQN = \<lparr>mean = PyNum 120, std = PyNum 4, rewards = []\<rparr>\<rparr>),
              (''Acrobot-v1'', \<lparr>DQN = \<lparr>mean = PyNum 0, std = PyNum 1, rewards = []\<rparr>,
                               DDQN = \<lparr>mean = PyNum 3, std = PyNum 1, rewards = []\<rparr>\<rparr>)]"
  let ?np = "[(''Acrobot-v1'', \<lparr>DQN = \<lparr>mean = NpNum 0, std = NpNum 1, rewards = []\<rparr>,
                               DDQN = \<lparr>mean = NpNum 3, std = NpNum 1, rewards = []\<rparr>\<rparr>)]"
  let ?w = "\<lparr>fs = Map.empty, stdout = []\<rparr>"
  have h: "check_writable ''summary_table.txt'' (fs ?w) = None"
    by (simp add: check_writable_def dirname_def)
  have a: "list_ex zero_division_raises ?py" by (simp add: zero_division_raises_def)
  have b: "\<not> list_ex zero_division_raises ?np" by (simp add: zero_division_raises_def)
  have "\<exists>w'. create_summary_table ?py ''summary_table.txt'' ?w
               = (Some ZeroDivisionError, ?py, w')
             \<and> stdout w' = stdout ?w
             \<and> fs w' = (fs ?w)(''summary_table.txt'' \<mapsto>
                  TextFile (concat table_header_lines
                    @ concat (map written_row
                        (takeWhile (\<lambda>entry. \<not> zero_division_raises entry) ?py))))"
    using summary_table_zero_division [OF h, of ?py, THEN conjunct1] a by (rule mp)
  then have c: "fst (create_summary_table ?py ''summary_table.txt'' ?w) = Some ZeroDivisionError"
    by (elim exE conjE) simp
  have "\<exists>w'. create_summary_table ?np ''summary_table.txt'' ?w = (None, ?np, w')
             \<and> stdout w' = stdout ?w @ [''LaTeX table saved to '' @ ''summary_table.txt'']
             \<and> fs w' = (fs ?w)(''summary_table.txt'' \<mapsto>
                  TextFile (concat table_header_lines @ concat (map written_row ?np)
                            @ concat table_footer_lines))"
    using summary_table_zero_division [OF h, of ?np, THEN conjunct2, THEN conjunct1] b
    by (rule mp)
  then have d: "fst (create_summary_table ?np ''summary_table.txt'' ?w) = None"
    by (elim exE conjE) simp
  from h a c b d show ?thesis by (intro conjI)
qed

text \<open>
  The claim as stated fails for a numpy scalar: with \<open>np.float64(0.0)\<close> as DQN mean the
  call returns normally, the row shows \<open>+inf\<close>, and the confirmation line is printed.
\<close>

theorem summary_table_numpy_zero_counterexample:
  "num_val (mean (DQN \<lparr>DQN = \<lparr>mean = NpNum 0, std = NpNum 1, rewards = []\<rparr>,
                      DDQN = \<lparr>mean = NpNum 3, std = NpNum 1, rewards = []\<rparr>\<rparr>)) = 0
   \<and> create_summary_table
        [(''CartPole-v1'', \<lparr>DQN = \<lparr>mean = NpNum 0, std = NpNum 1, rewards = []\<rparr>,
                            DDQN = \<lparr>mean = NpNum 3, std = NpNum 1, rewards = []\<rparr>\<rparr>)]
        ''summary_table.txt'' \<lparr>fs = Map.empty, stdout = []\<rparr>
     = (None,
        [(''CartPole-v1'', \<lparr>DQN = \<lparr>mean = NpNum 0, std = NpNum 1, rewards = []\<rparr>,
                            DDQN = \<lparr>mean = NpNum 3, std = NpNum 1, rewards = []\<rparr>\<rparr>)],
        \<lparr>fs = Map.empty(''summary_table.txt'' \<mapsto>
                TextFile (concat table_header_lines
                  @ ''CartPole-v1 & $0.0 '' @ bsl @ ''pm 1.0$ & $3.0 '' @ bsl
                  @ ''pm 1.0$ & +inf'' @ bsl @ ''% '' @ bsl @ bsl @ ''\<newline>''
                  @ concat table_footer_lines)),
         stdout = [''LaTeX table saved to summary_table.txt'']\<rparr>)"
proof -
  let ?res = "[(''CartPole-v1'', \<lparr>DQN = \<lparr>mean = NpNum 0, std = NpNum 1, rewards = []\<rparr>,
                                 DDQN = \<lparr>mean = NpNum 3, std = NpNum 1, rewards = []\<rparr>\<rparr>)]"
  have h: "check_writable ''summary_table.txt'' (fs \<lparr>fs = Map.empty, stdout = []\<rparr>) = None"
    by (simp add: check_writable_def dirname_def)
  have n: "\<not> list_ex zero_division_raises ?res" by (simp add: zero_division_raises_def)
  have r: "concat (map written_row ?res)
             = ''CartPole-v1 & $0.0 '' @ bsl @ ''pm 1.0$ & $3.0 '' @ bsl
               @ ''pm 1.0$ & +inf'' @ bsl @ ''% '' @ bsl @ bsl @ ''\<newline>''"
    by (simp add: written_row_def row_text_def improvement_float_def format_float_def
          format_f_def round_half_even_def digits.simps digit_char_def)
  show ?thesis
    using create_summary_table_general [OF h, of ?res] n unfolding r by simp
qed

text \<open>
  C7. With non-zero DQN means (and a file that can be opened), \<open>create_summary_table\<close>
  changes the file system at the one path \<open>save_path\<close>: the file holds the fixed header,
  one row per environment in the order of the mapping (name, DQN mean and std, DDQN mean
  and std, improvement percentage), and the fixed footer; when no name holds a line break
  the file has \<open>6 + len(results) + 5\<close> lines. One line, \<open>LaTeX table saved to ...\<close>, is
  added to the standard output.
\<close>

theorem summary_table_file_and_log:
  assumes "check_writable save_path (fs w) = None" and "nonzero_dqn_means res"
  shows "\<exists>rows text.
           create_summary_table res save_path w =
             (None, res,
              \<lparr>fs = (fs w)(save_path \<mapsto> TextFile text),
               stdout = stdout w @ [''LaTeX table saved to '' @ save_path]\<rparr>)
         \<and> text = concat table_header_lines @ concat rows @ concat table_footer_lines
         \<and> length rows = length res
         \<and> rows =
             map (\<lambda>(env_name, data).
                    env_name
                    @ '' & $'' @ format_f False 1 (num_val (mean (DQN data))) @ '' '' @ bsl @ ''pm ''
                      @ format_f False 1 (num_val (std (DQN data))) @ ''$''
                    @ '' & $'' @ format_f False 1 (num_val (mean (DDQN data))) @ '' '' @ bsl @ ''pm ''
                      @ format_f False 1 (num_val (std (DDQN data))) @ ''$''
                    @ '' & '' @ format_f True 1
                         ((num_val (mean (DDQN data)) - num_val (mean (DQN data))) / \<bar>num_val (mean (DQN data))\<bar> * 100)
                    @ bsl @ ''% '' @ bsl @ bsl @ ''\<newline>'') res
         \<and> (list_all (\<lambda>(env_name, data). CHR ''\<newline>'' \<notin> set env_name) res \<longrightarrow>
              length (filter (\<lambda>c. c = CHR ''\<newline>'') text) = 6 + length res + 5)"
proof -
  let ?rows = "expected_rows res"
  let ?text = "concat table_header_lines @ concat ?rows @ concat table_footer_lines"
  have call: "create_summary_table res save_path w =
             (None, res,
              \<lparr>fs = (fs w)(save_path \<mapsto> TextFile ?text),
               stdout = stdout w @ [''LaTeX table saved to '' @ save_path]\<rparr>)"
    using assms by (rule create_summary_table_ok)
  have len: "length ?rows = length res" by (simp add: expected_rows_def)
  have shape: "?rows =
             map (\<lambda>(env_name, data).
                    env_name
                    @ '' & $'' @ format_f False 1 (num_val (mean (DQN data))) @ '' '' @ bsl @ ''pm ''
                      @ format_f False 1 (num_val (std (DQN data))) @ ''$''
                    @ '' & $'' @ format_f False 1 (num_val (mean (DDQN data))) @ '' '' @ bsl @ ''pm ''
                      @ format_f False 1 (num_val (std (DDQN data))) @ ''$''
                    @ '' & '' @ format_f True 1
                         ((num_val (mean (DDQN data)) - num_val (mean (DQN data))) / \<bar>num_val (mean (DQN data))\<bar> * 100)
                    @ bsl @ ''% '' @ bsl @ bsl @ ''\<newline>'') res"
    by (simp add: expected_rows_def expected_row_def row_text_def improvement_pct_def)
  have lines: "length (filter (\<lambda>c. c = CHR ''\<newline>'') ?text) = 6 + length res + 5"
    if "list_all (\<lambda>(env_name, data). CHR ''\<newline>'' \<notin> set env_name) res"
    using expected_rows_newlines [OF that] header_newlines footer_newlines by simp
  from call len shape lines show ?thesis by blast
qed

theorem summary_table_file_and_log_witness:
  "check_writable ''summary_table.txt'' (fs \<lparr>fs = Map.empty, stdout = []\<rparr>) = None
   \<and> nonzero_dqn_means
        [(''CartPole-v1'', \<lparr>DQN = \<lparr>mean = PyNum 100, std = PyNum 5, rewards = []\<rparr>,
                            DDQN = \<lparr>mean = PyNum 120, std = PyNum 4, rewards = []\<rparr>\<rparr>)]
   \<and> stdout (snd (snd (create_summary_table
        [(''CartPole-v1'', \<lparr>DQN = \<lparr>mean = PyNum 100, std = PyNum 5, rewards = []\<rparr>,
                            DDQN = \<lparr>mean = PyNum 120, std = PyNum 4, rewards = []\<rparr>\<rparr>)]
        ''summary_table.txt'' \<lparr>fs = Map.empty, stdout = []\<rparr>)))
       = [''LaTeX table saved to summary_table.txt'']
   \<and> fst (create_summary_table
        [(''CartPole-v1'', \<lparr>DQN = \<lparr>mean = PyNum 100, std = PyNum 5, rewards = []\<rparr>,
                            DDQN = \<lparr>mean = PyNum 120, std = PyNum 4, rewards = []\<rparr>\<rparr>)]
        ''summary_table.txt'' \<lparr>fs = Map.empty, stdout = []\<rparr>) = None"
proof -
  let ?res = "[(''CartPole-v1'', \<lparr>DQN = \<lparr>mean = PyNum 100, std = PyNum 5, rewards = []\<rparr>,
                                 DDQN = \<lparr>mean = PyNum 120, std = PyNum 4, rewards = []\<rparr>\<rparr>)]"
  have h1: "check_writable ''summary_table.txt'' (fs \<lparr>fs = Map.empty, stdout = []\<rparr>) = None"
    by (simp add: check_writable_def dirname_def)
  have h2: "nonzero_dqn_means ?res" by (simp add: nonzero_dqn_means_def)
  from summary_table_file_and_log [OF h1 h2] obtain rows content where
    "create_summary_table ?res ''summary_table.txt'' \<lparr>fs = Map.empty, stdout = []\<rparr> =
       (None, ?res,
        \<lparr>fs = (fs \<lparr>fs = Map.empty, stdout = []\<rparr>)(''summary_table.txt'' \<mapsto> TextFile content),
         stdout = stdout \<lparr>fs = Map.empty, stdout = []\<rparr>
                  @ [''LaTeX table saved to '' @ ''summary_table.txt'']\<rparr>)"
    by blast
  then show ?thesis using h1 h2 by simp
qed

text \<open>
  C9. For the empty mapping (and a file that can be opened) \<open>create_summary_table\<close>
  returns normally: the file holds the header and the footer with no row between them,
  and the confirmation line is printed.
\<close>

theorem summary_table_empty_mapping:
  assumes "check_writable save_path (fs w) = None"
  shows "create_summary_table [] save_path w =
           (None, [],
            \<lparr>fs = (fs w)(save_path \<mapsto>
                     TextFile (concat table_header_lines @ concat table_footer_lines)),
             stdout = stdout w @ [''LaTeX table saved to '' @ save_path]\<rparr>)
       \<and> expected_rows [] = []
       \<and> concat table_header_lines @ concat table_footer_lines =
           bsl @ ''begin{table}[h]\<newline>''
           @ bsl @ ''centering\<newline>''
           @ bsl @ ''begin{tabular}{|l|c|c|c|}\<newline>''
           @ bsl @ ''hline\<newline>''
           @ bsl @ ''textbf{Environment} & '' @ bsl @ ''textbf{DQN} & '' @ bsl
             @ ''textbf{DDQN} & '' @ bsl @ ''textbf{Improvement} '' @ bsl @ bsl @ ''\<newline>''
           @ bsl @ ''hline\<newline>''
           @ bsl @ ''hline\<newline>''
           @ bsl @ ''end{tabular}\<newline>''
           @ bsl @ ''caption{Performance Comparison: DQN vs DDQN (Mean $'' @ bsl
             @ ''pm$ Std over 100 episodes)}\<newline>''
           @ bsl @ ''label{tab:results}\<newline>''
           @ bsl @ ''end{table}\<newline>''"
proof -
  have nz: "nonzero_dqn_means []" by (simp add: nonzero_dqn_means_def)
  have e: "expected_rows [] = []" by (simp add: expected_rows_def)
  have t: "concat table_header_lines @ concat table_footer_lines =
           bsl @ ''begin{table}[h]\<newline>''
           @ bsl @ ''centering\<newline>''
           @ bsl @ ''begin{tabular}{|l|c|c|c|}\<newline>''
           @ bsl @ ''hline\<newline>''
           @ bsl @ ''textbf{Environment} & '' @ bsl @ ''textbf{DQN} & '' @ bsl
             @ ''textbf{DDQN} & '' @ bsl @ ''textbf{Improvement} '' @ bsl @ bsl @ ''\<newline>''
           @ bsl @ ''hline\<newline>''
           @ bsl @ ''hline\<newline>''
           @ bsl @ ''end{tabular}\<newline>''
           @ bsl @ ''caption{Performance Comparison: DQN vs DDQN (Mean $'' @ bsl
             @ ''pm$ Std over 100 episodes)}\<newline>''
           @ bsl @ ''label{tab:results}\<newline>''
           @ bsl @ ''end{table}\<newline>''"
    by (simp add: table_header_lines_def table_footer_lines_def)
  show ?thesis
    using create_summary_table_ok [OF assms nz] e t by simp
qed

theorem summary_table_empty_mapping_witness:
  "check_writable ''summary_table.txt'' (fs \<lparr>fs = Map.empty, stdout = []\<rparr>) = None
   \<and> fst (create_summary_table [] ''summary_table.txt'' \<lparr>fs = Map.empty, stdout = []\<rparr>) = None
   \<and> stdout (snd (snd (create_summary_table [] ''summary_table.txt''
                          \<lparr>fs = Map.empty, stdout = []\<rparr>)))
       = [''LaTeX table saved to summary_table.txt'']
   \<and> fs (snd (snd (create_summary_table [] ''summary_table.txt''
                      \<lparr>fs = Map.empty, stdout = []\<rparr>))) ''summary_table.txt''
       = Some (TextFile (concat table_header_lines @ concat table_footer_lines))"
proof -
  have h1: "check_writable ''summary_table.txt'' (fs \<lparr>fs = Map.empty, stdout = []\<rparr>) = None"
    by (simp add: check_writable_def dirname_def)
  from summary_table_empty_mapping [OF h1] show ?thesis using h1 by simp
qed

subsection \<open>Loading results\<close>

text \<open>
  C5. \<open>load_results\<close> returns the parsed value when the path holds a file whose text
  parses, and returns \<open>None\<close> (it does not raise) when nothing exists at the path; it
  returns \<open>None\<close> only then. Existence is all it checks: a file that does not parse and
  a path that is a directory end in the error of the parser or of the open.
\<close>

theorem load_results_cases:
  "(m results_file = Some (TextFile t) \<and> json_load t = Inr v
      \<longrightarrow> load_results json_load results_file m = Inr (Some v))
   \<and> (m results_file = None \<longrightarrow> load_results json_load results_file m = Inr None)
   \<and> (load_results json_load results_file m = Inr None
        \<longleftrightarrow> \<not> os_path_exists results_file m)
   \<and> (m results_file = Some (TextFile t) \<and> json_load t = Inl e
        \<longrightarrow> load_results json_load results_file m = Inl e)
   \<and> (m results_file = Some Dir
        \<longrightarrow> load_results json_load results_file m = Inl IsADirectoryError)"
  by (auto simp: load_results_def os_path_exists_def open_read_def
           split: option.splits node.splits sum.splits)

theorem load_results_cases_witness:
  "load_results (\<lambda>s. if s = ''{}'' then Inr ([] :: results) else Inl JSONDecodeError)
       ''results.json'' (Map.empty(''results.json'' \<mapsto> TextFile ''{}'')) = Inr (Some [])
   \<and> load_results (\<lambda>s. if s = ''{}'' then Inr ([] :: results) else Inl JSONDecodeError)
       ''results.json'' Map.empty = Inr None
   \<and> load_results (\<lambda>s. if s = ''{}'' then Inr ([] :: results) else Inl JSONDecodeError)
       ''results.json'' (Map.empty(''results.json'' \<mapsto> TextFile ''{'')) = Inl JSONDecodeError"
proof -
  let ?jl = "\<lambda>s. if s = ''{}'' then Inr ([] :: results) else Inl JSONDecodeError"
  have a: "load_results ?jl ''results.json'' (Map.empty(''results.json'' \<mapsto> TextFile ''{}''))
             = Inr (Some [])"
    using load_results_cases [of "Map.empty(''results.json'' \<mapsto> TextFile ''{}'')"
            "''results.json''" "''{}''" ?jl "[]" JSONDecodeError]
    by simp
  have b: "load_results ?jl ''results.json'' Map.empty = Inr None"
    using load_results_cases [of Map.empty "''results.json''" "''{}''" ?jl "[]" JSONDecodeError]
    by simp
  have c: "load_results ?jl ''results.json'' (Map.empty(''results.json'' \<mapsto> TextFile ''{''))
             = Inl JSONDecodeError"
    using load_results_cases [of "Map.empty(''results.json'' \<mapsto> TextFile ''{'')"
            "''results.json''" "''{''" ?jl "[]" JSONDecodeError]
    by simp
  from a b c show ?thesis by blast
qed

subsection \<open>Loss curves\<close>

text \<open>
  C4, as amended. The guard of \<open>plot_loss_curves\<close> is \<open>len(losses) > window\<close> with
  \<open>window = 50\<close>: a sequence of at most 50 losses is drawn as the one unsmoothed curve; a
  sequence of more than 50 losses is drawn as the raw curve and the moving average, the
  latter of length \<open>len(losses) - 49\<close> against the indices \<open>49, ..., len(losses) - 1\<close>.
  The claim as stated (smoothing from 50 losses on) fails at exactly 50 losses, where the
  smoothing would give one value and the function draws the unsmoothed curve alone.
\<close>

theorem loss_curves_guard:
  "window = 50
   \<and> (length losses \<le> window \<longrightarrow>
        (\<exists>fig. loss_curves_figure losses env_name algo_name = Inr fig
           \<and> map artists fig = [[Line None losses ''Loss'']]))
   \<and> (window < length losses \<longrightarrow>
        (\<exists>fig smoothed.
           loss_curves_figure losses env_name algo_name = Inr fig
           \<and> smooth losses = Inr smoothed
           \<and> length smoothed = length losses - window + 1
           \<and> (\<forall>k<length smoothed.
                 smoothed ! k = sum_list (take window (drop k losses)) / real window)
           \<and> map artists fig =
               [[Line None losses ''Loss (raw)'',
                 Line (Some [window - 1..<length losses]) smoothed ''Loss (smoothed)'']]
           \<and> length [window - 1..<length losses] = length smoothed
           \<and> hd [window - 1..<length losses] = window - 1))"
proof -
  have w: "window = 50" by (simp add: window_def)
  have short: "\<exists>fig. loss_curves_figure losses env_name algo_name = Inr fig
           \<and> map artists fig = [[Line None losses ''Loss'']]"
    if "length losses \<le> window"
    using that by (simp add: loss_curves_figure_def loss_artists_def)
  have long: "\<exists>fig smoothed.
           loss_curves_figure losses env_name algo_name = Inr fig
           \<and> smooth losses = Inr smoothed
           \<and> length smoothed = length losses - window + 1
           \<and> (\<forall>k<length smoothed.
                 smoothed ! k = sum_list (take window (drop k losses)) / real window)
           \<and> map artists fig =
               [[Line None losses ''Loss (raw)'',
                 Line (Some [window - 1..<length losses]) smoothed ''Loss (smoothed)'']]
           \<and> length [window - 1..<length losses] = length smoothed
           \<and> hd [window - 1..<length losses] = window - 1"
    if lt: "window < length losses"
  proof -
    let ?sm = "correlate_valid losses (replicate window (1 / real window))"
    have le: "window \<le> length losses" using lt by simp
    have sm: "smooth losses = Inr ?sm" using le by (rule smooth_long)
    have len: "length ?sm = length losses - window + 1" by (simp add: correlate_valid_def)
    have idx: "length [window - 1..<length losses] = length ?sm"
      using lt len by (simp add: window_def)
    have val: "\<forall>k<length ?sm. ?sm ! k = sum_list (take window (drop k losses)) / real window"
      using le len by (simp add: correlate_uniform_nth)
    have fig: "loss_curves_figure losses env_name algo_name =
             Inr [\<lparr>artists = [Line None losses ''Loss (raw)'',
                     Line (Some [window - 1..<length losses]) ?sm ''Loss (smoothed)''],
                   xlabel = ''Episode'', ylabel = ''Loss'',
                   title = algo_name @ '' Training Loss: '' @ env_name,
                   xticks = None, xticklabels = None, yscale_log = True\<rparr>]"
      using lt sm idx by (simp add: loss_curves_figure_def loss_artists_def ax_plot_xy_def)
    have h: "hd [window - 1..<length losses] = window - 1"
      using lt by (simp add: window_def upt_conv_Cons)
    from fig sm len val idx h show ?thesis by simp
  qed
  from w short long show ?thesis by blast
qed

theorem loss_curves_guard_witness:
  "(\<exists>fig. loss_curves_figure (replicate 50 1) ''Env'' ''DQN'' = Inr fig
      \<and> map artists fig = [[Line None (replicate 50 1) ''Loss'']])
   \<and> (\<exists>fig smoothed. loss_curves_figure (replicate 51 1) ''Env'' ''DQN'' = Inr fig
         \<and> length smoothed = 2
         \<and> map artists fig =
             [[Line None (replicate 51 1) ''Loss (raw)'',
               Line (Some [49, 50]) smoothed ''Loss (smoothed)'']])"
proof -
  have a: "length (replicate 50 (1::real)) \<le> window" by (simp add: window_def)
  have b: "window < length (replicate 51 (1::real))" by (simp add: window_def)
  have i: "[window - 1..<length (replicate 51 (1::real))] = [49, 50]"
    by (simp add: window_def upt_rec)
  have n: "length (replicate 51 (1::real)) - window + 1 = 2" by (simp add: window_def)
  note g50 = loss_curves_guard [of "replicate 50 1" "''Env''" "''DQN''"]
  note g51 = loss_curves_guard [of "replicate 51 1" "''Env''" "''DQN''"]
  have s: "\<exists>fig. loss_curves_figure (replicate 50 1) ''Env'' ''DQN'' = Inr fig
      \<and> map artists fig = [[Line None (replicate 50 1) ''Loss'']]"
    using g50 [THEN conjunct2, THEN conjunct1] a by (rule mp)
  have "\<exists>fig smoothed.
           loss_curves_figure (replicate 51 1) ''Env'' ''DQN'' = Inr fig
           \<and> smooth (replicate 51 1) = Inr smoothed
           \<and> length smoothed = length (replicate 51 (1::real)) - window + 1
           \<and> (\<forall>k<length smoothed.
                 smoothed ! k = sum_list (take window (drop k (replicate 51 1))) / real window)
           \<and> map artists fig =
               [[Line None (replicate 51 1) ''Loss (raw)'',
                 Line (Some [window - 1..<length (replicate 51 (1::real))]) smoothed
                   ''Loss (smoothed)'']]
           \<and> length [window - 1..<length (replicate 51 (1::real))] = length smoothed
           \<and> hd [window - 1..<length (replicate 51 (1::real))] = window - 1"
    using g51 [THEN conjunct2, THEN conjunct2] b by (rule mp)
  then obtain fig smoothed where
    f1: "loss_curves_figure (replicate 51 1) ''Env'' ''DQN'' = Inr fig"
    and f3: "length smoothed = length (replicate 51 (1::real)) - window + 1"
    and f5: "map artists fig =
               [[Line None (replicate 51 1) ''Loss (raw)'',
                 Line (Some [window - 1..<length (replicate 51 (1::real))]) smoothed
                   ''Loss (smoothed)'']]"
    by (elim exE conjE)
  have l: "\<exists>fig smoothed. loss_curves_figure (replicate 51 1) ''Env'' ''DQN'' = Inr fig
         \<and> length smoothed = 2
         \<and> map artists fig =
             [[Line None (replicate 51 1) ''Loss (raw)'',
               Line (Some [49, 50]) smoothed ''Loss (smoothed)'']]"
    using f1 f3 f5 unfolding i n by (intro exI conjI)
  from s l show ?thesis by (rule conjI)
qed

text \<open>
  At exactly 50 losses the sequence is not shorter than the window and the moving average
  has one value, yet the figure holds the single unsmoothed curve.
\<close>

theorem loss_curves_at_window_counterexample:
  "\<not> length (replicate 50 (1::real)) < 50
   \<and> 50 \<le> length (replicate 50 (1::real))
   \<and> smooth (replicate 50 1) = Inr [1]
   \<and> loss_curves_figure (replicate 50 1) ''Env'' ''DQN'' =
       Inr [\<lparr>artists = [Line None (replicate 50 1) ''Loss''],
             xlabel = ''Episode'', ylabel = ''Loss'',
             title = ''DQN Training Loss: Env'',
             xticks = None, xticklabels = None, yscale_log = True\<rparr>]"
proof -
  have a: "window \<le> length (replicate 50 (1::real))" by (simp add: window_def)
  have "smooth (replicate 50 1) = Inr (correlate_valid (replicate 50 1) (replicate window (1 / real window)))"
    using a by (rule smooth_long)
  also have "correlate_valid (replicate 50 1) (replicate window (1 / real window)) = [1]"
    using dot_replicate [of "replicate 50 1" 50 "1 / 50"]
    by (simp add: correlate_valid_def window_def sum_list_replicate)
  finally have s: "smooth (replicate 50 1) = Inr [1]" .
  have f: "loss_curves_figure (replicate 50 1) ''Env'' ''DQN'' =
       Inr [\<lparr>artists = [Line None (replicate 50 1) ''Loss''],
             xlabel = ''Episode'', ylabel = ''Loss'',
             title = ''DQN Training Loss: Env'',
             xticks = None, xticklabels = None, yscale_log = True\<rparr>]"
    by (simp add: loss_curves_figure_def loss_artists_def window_def)
  from s f show ?thesis by simp
qed

subsection \<open>Hyperparameter comparison\<close>

lemma hyper_loop_eq:
  "hyper_loop py_str xs (a, b, c) =
     (a @ map (\<lambda>e. py_str (fst e)) xs,
      b @ map (\<lambda>e. np_mean (snd e)) xs,
      c @ map (\<lambda>e. np_std (snd e)) xs)"
proof (induction xs arbitrary: a b c)
  case Nil
  then show ?case by simp
next
  case (Cons e xs)
  obtain v rs where e: "e = (v, rs)" by (cases e)
  show ?case unfolding e by (simp add: Cons.IH)
qed

lemma np_std_not_negative: "\<not> negative_error (np_std rs)"
proof (cases "rs = []")
  case True
  then show ?thesis by (simp add: np_std_def np_mean_def negative_error_def)
next
  case False
  have "0 \<le> sum_list (map (\<lambda>x. \<bar>x - m\<bar> ^ 2) rs)" for m :: real
    by (rule sum_list_nonneg) auto
  then show ?thesis using False
    by (simp add: np_std_def np_mean_def negative_error_def not_less)
qed

lemma hyperparameter_figure_eq:
  "hyperparameter_figure py_str results_dict param_name env_name =
     Inr [\<lparr>artists =
             [Bars (np_arange (length results_dict))
                (map (\<lambda>e. np_mean (snd e)) (sort results_dict)) None
                (map (\<lambda>e. np_std (snd e)) (sort results_dict)) []],
           xlabel = param_name, ylabel = ''Average Reward'',
           title = ''Effect of '' @ param_name @ '' on '' @ env_name,
           xticks = Some (np_arange (length results_dict)),
           xticklabels = Some (map (\<lambda>e. py_str (fst e)) (sort results_dict)),
           yscale_log = False\<rparr>]"
  by (simp add: hyperparameter_figure_def hyper_loop_eq ax_bar_def np_arange_def Let_def
        list_ex_iff np_std_not_negative)

lemma sorted_fst_of_sorted:
  fixes xs :: "('k::linorder \<times> real list) list"
  shows "sorted xs \<Longrightarrow> sorted (map fst xs)"
proof (induction xs)
  case Nil
  then show ?case by simp
next
  case (Cons x xs)
  have "fst x \<le> fst y" if "y \<in> set xs" for y
  proof -
    from Cons.prems that have "x \<le> y" by simp
    then show ?thesis by (auto simp: less_eq_prod_def)
  qed
  with Cons show ?case by auto
qed

lemma keys_of_sorted_items:
  fixes items :: "('k::linorder \<times> real list) list"
  shows "map fst (sort items) = sort (map fst items)"
proof -
  have "mset (map fst (sort items)) = mset (map fst items)" by simp
  moreover have "sorted (map fst (sort items))" by (rule sorted_fst_of_sorted) simp
  ultimately show ?thesis by (rule properties_for_sort [symmetric])
qed

lemma sort_of_permutation:
  fixes items :: "('k::linorder \<times> real list) list"
  assumes "mset other = mset items"
  shows "sort other = sort items"
proof -
  have "mset (sort items) = mset other" using assms by simp
  moreover have "sorted (sort items)" by simp
  ultimately show ?thesis by (rule properties_for_sort)
qed

lemma np_std_population:
  "rs \<noteq> [] \<Longrightarrow>
     np_mean rs = Some (sum_list rs / real (length rs))
     \<and> np_std rs =
         Some (sqrt (sum_list (map (\<lambda>x. (x - sum_list rs / real (length rs)) ^ 2) rs)
                     / real (length rs)))"
  by (simp add: np_mean_def np_std_def)

text \<open>
  C8. The figure that \<open>plot_hyperparameter_comparison\<close> draws and saves has one bar per
  parameter value, in ascending order of the values: the tick labels are \<open>str\<close> of the
  sorted keys, and the \<open>i\<close>-th bar has as height the mean and as error bar the population
  standard deviation (\<open>sqrt\<close> of the mean squared deviation, divisor \<open>n\<close>) of the reward
  sequence stored under the \<open>i\<close>-th smallest key. The insertion order of the mapping does
  not matter: every permutation of the items gives the same figure. Keys of a linearly
  ordered type are mutually comparable.
\<close>

theorem hyperparameter_bars_sorted:
  fixes results_dict :: "('k::linorder \<times> real list) list"
  shows "\<exists>fig heights errs.
           hyperparameter_figure py_str results_dict param_name env_name = Inr [fig]
         \<and> artists fig = [Bars (np_arange (length results_dict)) heights None errs []]
         \<and> xticklabels fig = Some (map py_str (sort (map fst results_dict)))
         \<and> map fst (sort results_dict) = sort (map fst results_dict)
         \<and> length heights = length results_dict
         \<and> length errs = length results_dict
         \<and> (\<forall>i<length results_dict.
               \<exists>rs. (sort (map fst results_dict) ! i, rs) \<in> set results_dict
                 \<and> heights ! i = np_mean rs
                 \<and> errs ! i = np_std rs
                 \<and> (distinct (map fst results_dict) \<longrightarrow>
                       map_of results_dict (sort (map fst results_dict) ! i) = Some rs)
                 \<and> (rs \<noteq> [] \<longrightarrow>
                       heights ! i = Some (sum_list rs / real (length rs))
                       \<and> errs ! i =
                           Some (sqrt (sum_list
                                   (map (\<lambda>x. (x - sum_list rs / real (length rs)) ^ 2) rs)
                                 / real (length rs)))))
         \<and> (\<forall>other. mset other = mset results_dict \<longrightarrow>
               hyperparameter_figure py_str other param_name env_name
                 = hyperparameter_figure py_str results_dict param_name env_name)"
proof -
  let ?s = "sort results_dict"
  let ?h = "map (\<lambda>e. np_mean (snd e)) ?s"
  let ?e = "map (\<lambda>e. np_std (snd e)) ?s"
  let ?fig = "\<lparr>artists = [Bars (np_arange (length results_dict)) ?h None ?e []],
           xlabel = param_name, ylabel = ''Average Reward'',
           title = ''Effect of '' @ param_name @ '' on '' @ env_name,
           xticks = Some (np_arange (length results_dict)),
           xticklabels = Some (map (\<lambda>e. py_str (fst e)) ?s),
           yscale_log = False\<rparr>"
  have keys: "map fst ?s = sort (map fst results_dict)" by (rule keys_of_sorted_items)
  have f: "hyperparameter_figure py_str results_dict param_name env_name = Inr [?fig]"
    by (rule hyperparameter_figure_eq)
  have a: "artists ?fig = [Bars (np_arange (length results_dict)) ?h None ?e []]" by simp
  have "map (\<lambda>e. py_str (fst e)) ?s = map py_str (map fst ?s)" by simp
  then have t: "xticklabels ?fig = Some (map py_str (sort (map fst results_dict)))"
    using keys by simp
  have lh: "length ?h = length results_dict" and le: "length ?e = length results_dict"
    by simp_all
  have bars: "\<exists>rs. (sort (map fst results_dict) ! i, rs) \<in> set results_dict
                 \<and> ?h ! i = np_mean rs
                 \<and> ?e ! i = np_std rs
                 \<and> (distinct (map fst results_dict) \<longrightarrow>
                       map_of results_dict (sort (map fst results_dict) ! i) = Some rs)
                 \<and> (rs \<noteq> [] \<longrightarrow>
                       ?h ! i = Some (sum_list rs / real (length rs))
                       \<and> ?e ! i =
                           Some (sqrt (sum_list
                                   (map (\<lambda>x. (x - sum_list rs / real (length rs)) ^ 2) rs)
                                 / real (length rs))))"
    if i: "i < length results_dict" for i
  proof -
    let ?k = "sort (map fst results_dict) ! i"
    let ?rs = "snd (?s ! i)"
    have il: "i < length ?s" using i by simp
    have k: "fst (?s ! i) = ?k" using il keys by (metis nth_map)
    have "?s ! i \<in> set ?s" using il by (rule nth_mem)
    then have mem: "(?k, ?rs) \<in> set results_dict" using k by (metis prod.collapse set_sort)
    have h: "?h ! i = np_mean ?rs" and e: "?e ! i = np_std ?rs" using il by simp_all
    have d: "map_of results_dict ?k = Some ?rs" if "distinct (map fst results_dict)"
      using that mem by (rule map_of_is_SomeI)
    have p: "?h ! i = Some (sum_list ?rs / real (length ?rs))
             \<and> ?e ! i = Some (sqrt (sum_list
                                   (map (\<lambda>x. (x - sum_list ?rs / real (length ?rs)) ^ 2) ?rs)
                                 / real (length ?rs)))"
      if "?rs \<noteq> []"
      using np_std_population [OF that] h e by simp
    from mem h e d p show ?thesis by blast
  qed
  have perm: "hyperparameter_figure py_str other param_name env_name
                 = hyperparameter_figure py_str results_dict param_name env_name"
    if "mset other = mset results_dict" for other
  proof -
    have "sort other = ?s" using that by (rule sort_of_permutation)
    moreover have "length other = length results_dict" using that by (rule mset_eq_length)
    ultimately show ?thesis by (simp add: hyperparameter_figure_eq)
  qed
  from f a t keys lh le bars perm show ?thesis by blast
qed

theorem hyperparameter_bars_sorted_witness:
  "hyperparameter_figure (\<lambda>k::nat. ''gamma'' @ digits k) [(99, [2, 4]), (95, [1, 3])]
      ''GAMMA'' ''CartPole-v1''
     = hyperparameter_figure (\<lambda>k::nat. ''gamma'' @ digits k) [(95, [1, 3]), (99, [2, 4])]
         ''GAMMA'' ''CartPole-v1''
   \<and> (\<exists>fig heights errs.
         hyperparameter_figure (\<lambda>k::nat. ''gamma'' @ digits k) [(99, [2, 4]), (95, [1, 3])]
           ''GAMMA'' ''CartPole-v1'' = Inr [fig]
         \<and> artists fig = [Bars (np_arange 2) heights None errs []]
         \<and> xticklabels fig = Some [''gamma95'', ''gamma99''])"
proof -
  let ?d = "[(99::nat, [2, 4::real]), (95, [1, 3])]"
  let ?str = "\<lambda>k::nat. ''gamma'' @ digits k"
  have m: "mset [(95::nat, [1, 3::real]), (99, [2, 4])] = mset ?d" by simp
  have s: "sort (map fst ?d) = [95, 99]" by simp
  have l: "map ?str [95, 99] = [''gamma95'', ''gamma99'']"
    by (simp add: digits.simps digit_char_def)
  from hyperparameter_bars_sorted [of ?str ?d "''GAMMA''" "''CartPole-v1''"]
  obtain fig heights errs where
    f: "hyperparameter_figure ?str ?d ''GAMMA'' ''CartPole-v1'' = Inr [fig]"
    and a: "artists fig = [Bars (np_arange (length ?d)) heights None errs []]"
    and t: "xticklabels fig = Some (map ?str (sort (map fst ?d)))"
    and p: "\<forall>other. mset other = mset ?d \<longrightarrow>
               hyperparameter_figure ?str other ''GAMMA'' ''CartPole-v1''
                 = hyperparameter_figure ?str ?d ''GAMMA'' ''CartPole-v1''"
    by (elim exE conjE)
  have e: "hyperparameter_figure ?str ?d ''GAMMA'' ''CartPole-v1''
             = hyperparameter_figure ?str [(95, [1, 3]), (99, [2, 4])] ''GAMMA'' ''CartPole-v1''"
    using p m by (metis (no_types))
  have t': "xticklabels fig = Some [''gamma95'', ''gamma99'']" using t unfolding s l .
  have a': "artists fig = [Bars (np_arange 2) heights None errs []]" using a by (simp add: numeral_2_eq_2)
  from e f a' t' show ?thesis by blast
qed

subsection \<open>The files the plotting functions write\<close>

lemma dirname_join:
  assumes "CHR ''/'' \<notin> set file_name"
  shows "dirname (save_dir @ ''/'' @ file_name) = save_dir"
proof -
  have "dropWhile (\<lambda>c. c \<noteq> CHR ''/'') (rev file_name @ CHR ''/'' # rev save_dir)
          = CHR ''/'' # rev save_dir"
  proof -
    have "dropWhile (\<lambda>c. c \<noteq> CHR ''/'') (rev file_name @ CHR ''/'' # rev save_dir)
            = dropWhile (\<lambda>c. c \<noteq> CHR ''/'') (CHR ''/'' # rev save_dir)"
      by (rule dropWhile_append2) (use assms in auto)
    then show ?thesis by simp
  qed
  then show ?thesis by (simp add: dirname_def)
qed

lemma ancestors_shorter: "p \<in> set (ancestors d) \<Longrightarrow> length p < length d"
  by (auto simp: ancestors_def)

lemma path_not_made:
  "save_dir @ ''/'' @ file_name \<notin> set (ancestors save_dir @ [save_dir])"
proof
  assume "save_dir @ ''/'' @ file_name \<in> set (ancestors save_dir @ [save_dir])"
  then consider "save_dir @ ''/'' @ file_name \<in> set (ancestors save_dir)"
    | "save_dir @ ''/'' @ file_name = save_dir" by auto
  then show False
  proof cases
    case 1
    then show False using ancestors_shorter by fastforce
  next
    case 2
    then show False by simp
  qed
qed

lemma save_plot_ok:
  assumes "plot_target_ok save_dir file_name w"
  shows "save_plot save_dir (save_dir @ ''/'' @ file_name) (Inr fig) w =
           (None,
            w\<lparr>fs := (\<lambda>p. if p \<in> set (ancestors save_dir @ [save_dir]) then Some Dir
                          else fs w p)
                    (save_dir @ ''/'' @ file_name \<mapsto> ImageFile fig)\<rparr>)"
proof -
  let ?path = "save_dir @ ''/'' @ file_name"
  let ?m1 = "\<lambda>p. if p \<in> set (ancestors save_dir @ [save_dir]) then Some Dir else fs w p"
  have mk: "os_makedirs save_dir (fs w) = Inr ?m1"
    using assms by (simp add: os_makedirs_def plot_target_ok_def)
  have dn: "dirname ?path = save_dir"
    using assms dirname_join [of file_name save_dir] by (simp add: plot_target_ok_def)
  have np: "?m1 ?path \<noteq> Some Dir"
    using assms path_not_made [of save_dir file_name] by (simp add: plot_target_ok_def)
  have sd: "?m1 save_dir = Some Dir" by simp
  have ne: "save_dir \<noteq> []" using assms by (simp add: plot_target_ok_def)
  have cw: "check_writable ?path ?m1 = None"
    unfolding check_writable_def dn using np sd ne by simp
  show ?thesis
    using cw by (simp add: save_plot_def mk savefig_def)
qed

lemma save_plot_wrote:
  assumes "plot_target_ok save_dir file_name w"
  shows "\<exists>w'. save_plot save_dir (save_dir @ ''/'' @ file_name) (Inr fig) w = (None, w')
           \<and> wrote_one_image w w' save_dir (save_dir @ ''/'' @ file_name)"
proof -
  let ?path = "save_dir @ ''/'' @ file_name"
  let ?m1 = "\<lambda>p. if p \<in> set (ancestors save_dir @ [save_dir]) then Some Dir else fs w p"
  let ?w' = "w\<lparr>fs := ?m1(?path \<mapsto> ImageFile fig)\<rparr>"
  have nf: "\<not> is_file (fs w q)" if "q \<in> set (ancestors save_dir @ [save_dir])" for q
    using that assms by (auto simp: plot_target_ok_def list_ex_iff)
  have sp: "save_dir \<noteq> ?path" by simp
  have a: "\<exists>g. fs ?w' ?path = Some (ImageFile g)" by simp
  have b: "fs ?w' save_dir = Some Dir" using sp by simp
  have c: "\<forall>q. q \<noteq> ?path \<longrightarrow> is_file (fs ?w' q) = is_file (fs w q)"
    using nf by auto
  have d: "\<forall>q. q \<noteq> ?path \<and> is_file (fs w q) \<longrightarrow> fs ?w' q = fs w q"
    using nf by auto
  have e: "\<forall>q. fs w q = Some Dir \<longrightarrow> fs ?w' q = Some Dir"
    using assms by (auto simp: plot_target_ok_def)
  have f: "stdout ?w' = stdout w" by simp
  have "wrote_one_image w ?w' save_dir ?path"
    unfolding wrote_one_image_def using a b c d e f by blast
  with save_plot_ok [OF assms] show ?thesis by blast
qed

lemma save_plot_draw_error:
  assumes "plot_target_ok save_dir file_name w"
  shows "fst (save_plot save_dir (save_dir @ ''/'' @ file_name) (Inl e) w) = Some e
       \<and> fs (snd (save_plot save_dir (save_dir @ ''/'' @ file_name) (Inl e) w)) save_dir = Some Dir"
  using assms by (simp add: save_plot_def os_makedirs_def plot_target_ok_def)

lemma smooth_nonempty: "xs \<noteq> [] \<Longrightarrow> \<exists>ys. smooth xs = Inr ys"
  using smoothing_kernel_length
  by (auto simp: smooth_def np_convolve_valid_def window_def)

lemma smooth_empty: "smooth [] = Inl ValueError"
  using smoothing_kernel_length
  by (auto simp: smooth_def np_convolve_valid_def window_def)

lemma training_comparison_figure_total:
  "dqn_rewards \<noteq> [] \<Longrightarrow> ddqn_rewards \<noteq> [] \<Longrightarrow>
     \<exists>fig. training_comparison_figure dqn_rewards ddqn_rewards env_name = Inr fig"
  using smooth_nonempty [of dqn_rewards] smooth_nonempty [of ddqn_rewards]
  by (auto simp: training_comparison_figure_def)

lemma all_environments_figure_total:
  "nonneg_stds res \<Longrightarrow> \<exists>fig. all_environments_figure res = Inr fig"
  by (fastforce simp: all_environments_figure_def ax_bar_def np_arange_def Let_def
        negative_error_def nonneg_stds_def list_all_iff list_ex_iff)

lemma all_environments_figure_negative:
  assumes "\<not> nonneg_stds res"
  shows "all_environments_figure res = Inl ValueError"
proof -
  from assms have "\<exists>e \<in> set res. \<not> (0 \<le> num_val (std (DQN (snd e)))
                                   \<and> 0 \<le> num_val (std (DDQN (snd e))))"
    by (force simp: nonneg_stds_def list_all_iff)
  then obtain e where m: "e \<in> set res"
    and n: "num_val (std (DQN (snd e))) < 0 \<or> num_val (std (DDQN (snd e))) < 0"
    by (auto simp: not_le)
  let ?dqn = "map Some (map (\<lambda>(env, d). num_val (std (DQN d))) res)"
  let ?ddqn = "map Some (map (\<lambda>(env, d). num_val (std (DDQN d))) res)"
  have "list_ex negative_error ?dqn \<or> list_ex negative_error ?ddqn"
    using m n by (force simp: list_ex_iff negative_error_def split_beta)
  then show ?thesis
    by (auto simp: all_environments_figure_def ax_bar_def np_arange_def Let_def)
qed

lemma loss_curves_figure_total: "\<exists>fig. loss_curves_figure losses env_name algo_name = Inr fig"
proof (cases "window < length losses")
  case True
  then have "smooth losses = Inr (correlate_valid losses (replicate window (1 / real window)))"
    by (simp add: smooth_long)
  moreover have "length [window - 1..<length losses]
                   = length (correlate_valid losses (replicate window (1 / real window)))"
    using True by (simp add: correlate_valid_def window_def)
  ultimately show ?thesis using True
    by (simp add: loss_curves_figure_def loss_artists_def ax_plot_xy_def)
next
  case False
  then show ?thesis by (simp add: loss_curves_figure_def loss_artists_def)
qed

text \<open>
  C6. For a well-formed target (see \<open>plot_target_ok\<close>), for the training comparison
  non-empty reward sequences, and for the comparison of all environments standard
  deviations that are not negative, each of the five plotting functions returns normally and
  writes exactly one image file, at the path interpolated from its arguments:
  \<open>{save_dir}/{env}_training_comparison.png\<close>, \<open>{save_dir}/{env}_{algo}_stability.png\<close>,
  \<open>{save_dir}/{env}_{param}_comparison.png\<close>, \<open>{save_dir}/all_environments_comparison.png\<close>
  and \<open>{save_dir}/{env}_{algo}_loss.png\<close>; the directory \<open>save_dir\<close> exists afterwards. The
  directory is made first: it exists also when the drawing then raises, on an empty reward
  sequence or on a negative standard deviation (the last two conjuncts).
\<close>

theorem plots_write_one_image:
  fixes results_dict :: "('k::linorder \<times> real list) list"
  shows
  "(dqn_rewards \<noteq> [] \<and> ddqn_rewards \<noteq> []
      \<and> plot_target_ok save_dir (env_name @ ''_training_comparison.png'') w \<longrightarrow>
      (\<exists>w'. plot_training_comparison dqn_rewards ddqn_rewards env_name save_dir w = (None, w')
         \<and> wrote_one_image w w' save_dir
             (save_dir @ ''/'' @ env_name @ ''_training_comparison.png'')))
   \<and> (plot_target_ok save_dir (env_name @ ''_'' @ algo_name @ ''_stability.png'') w \<longrightarrow>
      (\<exists>w'. plot_evaluation_stability eval_rewards env_name algo_name save_dir w = (None, w')
         \<and> wrote_one_image w w' save_dir
             (save_dir @ ''/'' @ env_name @ ''_'' @ algo_name @ ''_stability.png'')))
   \<and> (plot_target_ok save_dir (env_name @ ''_'' @ param_name @ ''_comparison.png'') w \<longrightarrow>
      (\<exists>w'. plot_hyperparameter_comparison py_str results_dict param_name env_name save_dir w
               = (None, w')
         \<and> wrote_one_image w w' save_dir
             (save_dir @ ''/'' @ env_name @ ''_'' @ param_name @ ''_comparison.png'')))
   \<and> (nonneg_stds res \<and> plot_target_ok save_dir ''all_environments_comparison.png'' w \<longrightarrow>
      (\<exists>w'. plot_all_environments_comparison res save_dir w = (None, w')
         \<and> wrote_one_image w w' save_dir (save_dir @ ''/all_environments_comparison.png'')))
   \<and> (plot_target_ok save_dir (env_name @ ''_'' @ algo_name @ ''_loss.png'') w \<longrightarrow>
      (\<exists>w'. plot_loss_curves losses env_name algo_name save_dir w = (None, w')
         \<and> wrote_one_image w w' save_dir
             (save_dir @ ''/'' @ env_name @ ''_'' @ algo_name @ ''_loss.png'')))
   \<and> (plot_target_ok save_dir (env_name @ ''_training_comparison.png'') w \<longrightarrow>
        fst (plot_training_comparison [] ddqn_rewards env_name save_dir w) = Some ValueError
        \<and> fs (snd (plot_training_comparison [] ddqn_rewards env_name save_dir w)) save_dir
            = Some Dir)
   \<and> (\<not> nonneg_stds res \<and> plot_target_ok save_dir ''all_environments_comparison.png'' w \<longrightarrow>
        fst (plot_all_environments_comparison res save_dir w) = Some ValueError
        \<and> fs (snd (plot_all_environments_comparison res save_dir w)) save_dir = Some Dir)"
proof -
  have training: "\<exists>w'. plot_training_comparison dqn_rewards ddqn_rewards env_name save_dir w
                          = (None, w')
         \<and> wrote_one_image w w' save_dir
             (save_dir @ ''/'' @ env_name @ ''_training_comparison.png'')"
    if "dqn_rewards \<noteq> []" "ddqn_rewards \<noteq> []"
      "plot_target_ok save_dir (env_name @ ''_training_comparison.png'') w"
  proof -
    from that(1,2) obtain fig where
      "training_comparison_figure dqn_rewards ddqn_rewards env_name = Inr fig"
      using training_comparison_figure_total by blast
    then show ?thesis
      using save_plot_wrote [OF that(3), of fig] by (simp add: plot_training_comparison_def)
  qed
  have stability: "\<exists>w'. plot_evaluation_stability eval_rewards env_name algo_name save_dir w
                           = (None, w')
         \<and> wrote_one_image w w' save_dir
             (save_dir @ ''/'' @ env_name @ ''_'' @ algo_name @ ''_stability.png'')"
    if t: "plot_target_ok save_dir (env_name @ ''_'' @ algo_name @ ''_stability.png'') w"
  proof -
    obtain fig where "evaluation_stability_figure eval_rewards env_name algo_name = Inr fig"
      by (simp add: evaluation_stability_figure_def)
    then show ?thesis
      using save_plot_wrote [OF t, of fig] by (simp add: plot_evaluation_stability_def)
  qed
  have hyper: "\<exists>w'. plot_hyperparameter_comparison py_str results_dict param_name env_name
                       save_dir w = (None, w')
         \<and> wrote_one_image w w' save_dir
             (save_dir @ ''/'' @ env_name @ ''_'' @ param_name @ ''_comparison.png'')"
    if t: "plot_target_ok save_dir (env_name @ ''_'' @ param_name @ ''_comparison.png'') w"
  proof -
    obtain fig where "hyperparameter_figure py_str results_dict param_name env_name = Inr fig"
      by (simp add: hyperparameter_figure_eq)
    then show ?thesis
      using save_plot_wrote [OF t, of fig] by (simp add: plot_hyperparameter_comparison_def)
  qed
  have all_envs: "\<exists>w'. plot_all_environments_comparison res save_dir w = (None, w')
         \<and> wrote_one_image w w' save_dir (save_dir @ ''/all_environments_comparison.png'')"
    if n: "nonneg_stds res" and t: "plot_target_ok save_dir ''all_environments_comparison.png'' w"
  proof -
    obtain fig where "all_environments_figure res = Inr fig"
      using all_environments_figure_total [OF n] by blast
    then show ?thesis
      using save_plot_wrote [OF t, of fig] by (simp add: plot_all_environments_comparison_def)
  qed
  have loss: "\<exists>w'. plot_loss_curves losses env_name algo_name save_dir w = (None, w')
         \<and> wrote_one_image w w' save_dir
             (save_dir @ ''/'' @ env_name @ ''_'' @ algo_name @ ''_loss.png'')"
    if t: "plot_target_ok save_dir (env_name @ ''_'' @ algo_name @ ''_loss.png'') w"
  proof -
    obtain fig where "loss_curves_figure losses env_name algo_name = Inr fig"
      using loss_curves_figure_total by blast
    then show ?thesis
      using save_plot_wrote [OF t, of fig] by (simp add: plot_loss_curves_def)
  qed
  have failed: "fst (plot_training_comparison [] ddqn_rewards env_name save_dir w)
                  = Some ValueError
        \<and> fs (snd (plot_training_comparison [] ddqn_rewards env_name save_dir w)) save_dir
            = Some Dir"
    if t: "plot_target_ok save_dir (env_name @ ''_training_comparison.png'') w"
  proof -
    have "training_comparison_figure [] ddqn_rewards env_name = Inl ValueError"
      by (simp add: training_comparison_figure_def smooth_empty)
    then show ?thesis
      using save_plot_draw_error [OF t, of ValueError] by (simp add: plot_training_comparison_def)
  qed
  have negative: "fst (plot_all_environments_comparison res save_dir w) = Some ValueError
        \<and> fs (snd (plot_all_environments_comparison res save_dir w)) save_dir = Some Dir"
    if n: "\<not> nonneg_stds res" and t: "plot_target_ok save_dir ''all_environments_comparison.png'' w"
  proof -
    have "all_environments_figure res = Inl ValueError"
      using n by (rule all_environments_figure_negative)
    then show ?thesis
      using save_plot_draw_error [OF t, of ValueError]
      by (simp add: plot_all_environments_comparison_def)
  qed
  from training stability hyper all_envs loss failed negative show ?thesis by blast
qed

theorem plots_write_one_image_witness:
  "plot_target_ok ''plots'' ''Env_training_comparison.png'' \<lparr>fs = Map.empty, stdout = []\<rparr>
   \<and> fst (plot_training_comparison [1] [2] ''Env'' ''plots'' \<lparr>fs = Map.empty, stdout = []\<rparr>) = None
   \<and> wrote_one_image \<lparr>fs = Map.empty, stdout = []\<rparr>
        (snd (plot_training_comparison [1] [2] ''Env'' ''plots'' \<lparr>fs = Map.empty, stdout = []\<rparr>))
        ''plots'' ''plots/Env_training_comparison.png''
   \<and> fst (plot_evaluation_stability [1, 2] ''Env'' ''DQN'' ''plots''
            \<lparr>fs = Map.empty, stdout = []\<rparr>) = None
   \<and> wrote_one_image \<lparr>fs = Map.empty, stdout = []\<rparr>
        (snd (plot_evaluation_stability [1, 2] ''Env'' ''DQN'' ''plots''
                \<lparr>fs = Map.empty, stdout = []\<rparr>))
        ''plots'' ''plots/Env_DQN_stability.png''
   \<and> fst (plot_hyperparameter_comparison (\<lambda>k::nat. digits k) [(99, [2, 4]), (95, [1, 3])]
            ''GAMMA'' ''Env'' ''plots'' \<lparr>fs = Map.empty, stdout = []\<rparr>) = None
   \<and> wrote_one_image \<lparr>fs = Map.empty, stdout = []\<rparr>
        (snd (plot_hyperparameter_comparison (\<lambda>k::nat. digits k) [(99, [2, 4]), (95, [1, 3])]
                ''GAMMA'' ''Env'' ''plots'' \<lparr>fs = Map.empty, stdout = []\<rparr>))
        ''plots'' ''plots/Env_GAMMA_comparison.png''
   \<and> fst (plot_all_environments_comparison
            [(''CartPole-v1'', \<lparr>DQN = \<lparr>mean = PyNum 100, std = PyNum 5, rewards = []\<rparr>,
                               DDQN = \<lparr>mean = PyNum 120, std = PyNum 4, rewards = []\<rparr>\<rparr>)]
            ''plots'' \<lparr>fs = Map.empty, stdout = []\<rparr>) = None
   \<and> wrote_one_image \<lparr>fs = Map.empty, stdout = []\<rparr>
        (snd (plot_all_environments_comparison
                [(''CartPole-v1'', \<lparr>DQN = \<lparr>mean = PyNum 100, std = PyNum 5, rewards = []\<rparr>,
                               DDQN = \<lparr>mean = PyNum 120, std = PyNum 4, rewards = []\<rparr>\<rparr>)]
                ''plots'' \<lparr>fs = Map.empty, stdout = []\<rparr>))
        ''plots'' ''plots/all_environments_comparison.png''
   \<and> fst (plot_loss_curves [1, 2] ''Env'' ''DQN'' ''plots'' \<lparr>fs = Map.empty, stdout = []\<rparr>) = None
   \<and> wrote_one_image \<lparr>fs = Map.empty, stdout = []\<rparr>
        (snd (plot_loss_curves [1, 2] ''Env'' ''DQN'' ''plots'' \<lparr>fs = Map.empty, stdout = []\<rparr>))
        ''plots'' ''plots/Env_DQN_loss.png''"
proof -
  let ?w = "\<lparr>fs = Map.empty, stdout = []\<rparr>"
  let ?res = "[(''CartPole-v1'', \<lparr>DQN = \<lparr>mean = PyNum 100, std = PyNum 5, rewards = []\<rparr>,
                               DDQN = \<lparr>mean = PyNum 120, std = PyNum 4, rewards = []\<rparr>\<rparr>)]"
  have n4: "nonneg_stds ?res" by (simp add: nonneg_stds_def)
  have anc: "ancestors ''plots'' = []" by (simp add: ancestors_def)
  have ok: "CHR ''/'' \<notin> set name \<Longrightarrow> plot_target_ok ''plots'' name ?w" for name
    by (simp add: plot_target_ok_def anc)
  have t1: "plot_target_ok ''plots'' (''Env'' @ ''_training_comparison.png'') ?w"
    by (rule ok) simp
  have t2: "plot_target_ok ''plots'' (''Env'' @ ''_'' @ ''DQN'' @ ''_stability.png'') ?w"
    by (rule ok) simp
  have t3: "plot_target_ok ''plots'' (''Env'' @ ''_'' @ ''GAMMA'' @ ''_comparison.png'') ?w"
    by (rule ok) simp
  have t4: "plot_target_ok ''plots'' ''all_environments_comparison.png'' ?w"
    by (rule ok) simp
  have t5: "plot_target_ok ''plots'' (''Env'' @ ''_'' @ ''DQN'' @ ''_loss.png'') ?w"
    by (rule ok) simp
  note g = plots_write_one_image
    [where dqn_rewards = "[1]" and ddqn_rewards = "[2]" and save_dir = "''plots''"
       and env_name = "''Env''" and algo_name = "''DQN''" and param_name = "''GAMMA''"
       and w = ?w and eval_rewards = "[1, 2]" and py_str = "\<lambda>k::nat. digits k"
       and results_dict = "[(99, [2, 4]), (95, [1, 3])]" and res = ?res and losses = "[1, 2]"]
  have split: "fst c = None \<and> P (snd c)" if "\<exists>w'. c = (None, w') \<and> P w'"
    for c :: "py_error option \<times> world" and P
    using that by auto
  have c1: "fst (plot_training_comparison [1] [2] ''Env'' ''plots'' ?w) = None
            \<and> wrote_one_image ?w (snd (plot_training_comparison [1] [2] ''Env'' ''plots'' ?w))
                ''plots'' (''plots'' @ ''/'' @ ''Env'' @ ''_training_comparison.png'')"
    by (rule split, rule g [THEN conjunct1, THEN mp]) (use t1 in simp)
  have c2: "fst (plot_evaluation_stability [1, 2] ''Env'' ''DQN'' ''plots'' ?w) = None
            \<and> wrote_one_image ?w (snd (plot_evaluation_stability [1, 2] ''Env'' ''DQN'' ''plots'' ?w))
                ''plots'' (''plots'' @ ''/'' @ ''Env'' @ ''_'' @ ''DQN'' @ ''_stability.png'')"
    by (rule split, rule g [THEN conjunct2, THEN conjunct1, THEN mp]) (rule t2)
  have c3: "fst (plot_hyperparameter_comparison (\<lambda>k::nat. digits k) [(99, [2, 4]), (95, [1, 3])]
                  ''GAMMA'' ''Env'' ''plots'' ?w) = None
            \<and> wrote_one_image ?w
                (snd (plot_hyperparameter_comparison (\<lambda>k::nat. digits k)
                        [(99, [2, 4]), (95, [1, 3])] ''GAMMA'' ''Env'' ''plots'' ?w))
                ''plots'' (''plots'' @ ''/'' @ ''Env'' @ ''_'' @ ''GAMMA'' @ ''_comparison.png'')"
    by (rule split, rule g [THEN conjunct2, THEN conjunct2, THEN conjunct1, THEN mp]) (rule t3)
  have c4: "fst (plot_all_environments_comparison ?res ''plots'' ?w) = None
            \<and> wrote_one_image ?w (snd (plot_all_environments_comparison ?res ''plots'' ?w))
                ''plots'' (''plots'' @ ''/all_environments_comparison.png'')"
    by (rule split,
        rule g [THEN conjunct2, THEN conjunct2, THEN conjunct2, THEN conjunct1, THEN mp])
       (intro conjI n4 t4)
  have c5: "fst (plot_loss_curves [1, 2] ''Env'' ''DQN'' ''plots'' ?w) = None
            \<and> wrote_one_image ?w (snd (plot_loss_curves [1, 2] ''Env'' ''DQN'' ''plots'' ?w))
                ''plots'' (''plots'' @ ''/'' @ ''Env'' @ ''_'' @ ''DQN'' @ ''_loss.png'')"
    by (rule split,
        rule g [THEN conjunct2, THEN conjunct2, THEN conjunct2, THEN conjunct2,
                THEN conjunct1, THEN mp])
       (rule t5)
  from t1 c1 c2 c3 c4 c5 show ?thesis by simp
qed

end
